theory Spec2Isabelle
  imports
    Main
    "HOL-Library.Char_ord"
    "HOL-Library.List_Lexorder"
    "HOL-Library.Product_Lexorder"
    "HOL-Library.Multiset"
begin

section \<open>The outside world of the two scripts\<close>

text \<open>
  Both scripts are batch jobs around an external geographic library (arcpy), the
  operating system (os, glob, the clock) and pandas. None of that code belongs to the
  repository, so each external call is a field of the record \<open>env\<close>: what the call
  returns, or the exception it raises, for each argument. Python strings are modelled as
  \<open>string\<close> (ASCII). An attribute that is only interpolated into an f-string is held as
  the text that interpolation produces.

  Exceptions are values: \<open>exn + 'a\<close> with \<open>Inl\<close> for the raised exception.
  Listing calls of arcpy return a list or None (the source writes \<open>or []\<close>).
  Writing to an opened destination is taken to succeed.
\<close>

datatype exn = IndexError | Error string

fun str_exn :: "exn \<Rightarrow> string" where
  "str_exn IndexError = ''list index out of range''"
| "str_exn (Error msg) = msg"

text \<open>The spatial reference of a described dataset, as the source probes it:
  \<open>hasattr(desc, "spatialReference") and desc.spatialReference\<close>, then \<open>.name\<close>.\<close>

datatype sr_attr =
    SR_Missing
  | SR_Raises exn
  | SR_Falsy
  | SR_Object "exn + string"

record desc =
  datasetType :: "string option"
  shapeType :: "string option"
  spatialReference :: sr_attr
  desc_name :: string

record stat_result =
  st_ctime :: int
  st_mtime :: int
  st_size :: int

record field =
  field_name :: string
  field_type :: string
  field_length :: string
  field_aliasName :: string
  field_isNullable :: string

record symbol =
  symbol_type :: "exn + string"
  symbol_color :: "string option"
  symbol_size :: "string option"

record renderer =
  renderer_type :: "exn + string"
  renderer_symbol :: "symbol option"
  renderer_fields :: "string option"
  renderer_classBreakCount :: "string option"
  renderer_groups_len :: "string option"

text \<open>A layer of a layer file. \<open>symbology_renderer\<close> is \<open>layer.symbology.renderer\<close>;
  \<open>renderer_groups_len\<close> is the text of \<open>len(renderer.groups)\<close>.\<close>

record layer =
  supports :: "string \<Rightarrow> exn + bool"
  layer_name :: "exn + string"
  dataSource :: "exn + string"
  metadata_description :: "exn + string"
  visible :: "exn + string"
  metadata_minScale :: "exn + string"
  metadata_maxScale :: "exn + string"
  transparency :: "exn + string"
  definitionQuery :: "exn + string"
  symbology_renderer :: "exn + renderer"

record layer_file =
  listLayers :: "exn + layer list"

datatype listing = ListFeatureClasses | ListDatasets | ListTables | ListRasters

record env =
  os_walk :: "string \<Rightarrow> (string \<times> string list \<times> string list) list"
  os_path_join :: "string \<Rightarrow> string \<Rightarrow> string"
  os_path_dirname :: "string \<Rightarrow> string"
  os_path_basename :: "string \<Rightarrow> string"
  os_path_exists :: "string \<Rightarrow> bool"
  os_path_getmtime :: "string \<Rightarrow> exn + int"
  os_stat :: "string \<Rightarrow> exn + stat_result"
  os_getenv_USERNAME :: "string option"
  glob_glob :: "string \<Rightarrow> string list"
  strftime :: "int \<Rightarrow> exn + string"
  format_kb :: "int \<Rightarrow> string"
  now_strftime :: "nat \<Rightarrow> string"
  arcpy_Describe :: "string \<Rightarrow> exn + desc"
  arcpy_GetCount :: "string \<Rightarrow> exn + int"
  arcpy_list :: "listing \<Rightarrow> string option \<Rightarrow> string list option"
  arcpy_da_Describe_fields :: "string \<Rightarrow> exn + field list"
  arcpy_mp_LayerFile :: "string \<Rightarrow> exn + layer_file"

text \<open>
  What the fields stand for:
  \<^item> \<open>os_walk env root\<close>: the triples (dirpath, dirnames, filenames) that
    \<open>os.walk(root)\<close> yields, in order;
  \<^item> \<open>strftime env t\<close>: \<open>datetime.fromtimestamp(t).strftime('%Y-%m-%d %H:%M:%S')\<close>;
  \<^item> \<open>format_kb env n\<close>: the text of \<open>f"{n / 1024:.2f}"\<close>;
  \<^item> \<open>now_strftime env k\<close>: what the \<open>k\<close>-th evaluation of
    \<open>dt.datetime.now().strftime('%Y-%m-%d %H:%M:%S')\<close> in the run returns, counted from 0
    (the count is the field \<open>ticks\<close> of the state);
  \<^item> \<open>arcpy_GetCount env p\<close>: \<open>int(arcpy.management.GetCount(p)[0])\<close>;
  \<^item> \<open>arcpy_list env call ws\<close>: what the listing call returns while
    \<open>arcpy.env.workspace\<close> is \<open>ws\<close> (\<open>ListDatasets\<close> is called with \<open>"", "Feature"\<close>);
  \<^item> \<open>arcpy_da_Describe_fields env p\<close>: \<open>arcpy.da.Describe(p)["fields"]\<close>, each field
    with the texts of the five attributes the report prints;
  \<^item> an attribute probed with \<open>getattr(x, a, default)\<close> or \<open>hasattr(x, a)\<close> is an
    \<open>option\<close>: \<open>None\<close> when the object lacks it.
\<close>

section \<open>geodatabase\_catalog.py\<close>

record row =
  GDB_Name :: string
  GDB_Path :: string
  GDB_Last_Modified :: "string option"
  Feature_Dataset :: "string option"
  Dataset_Name :: string
  Dataset_Path :: string
  Dataset_Type :: string
  Geometry_Type :: "string option"
  Feature_Count :: "int option"
  Spatial_Reference :: "string option"

text \<open>
  The mutable world: arcpy's current workspace, a log of the listing calls made, each
  with the workspace it ran under, the console, the spreadsheets written, the text files
  written, and the number of clock readings taken so far.
\<close>

record state =
  workspace :: "string option"
  call_log :: "(listing \<times> string option) list"
  stdout :: "string list"
  excel_files :: "string \<rightharpoonup> row list"
  text_files :: "string \<rightharpoonup> string"
  ticks :: nat

definition print :: "string \<Rightarrow> state \<Rightarrow> state" where
  "print line st = st\<lparr>stdout := stdout st @ [line]\<rparr>"

definition format_timestamp :: "env \<Rightarrow> int \<Rightarrow> string option" where
  "format_timestamp env timestamp =
     (case strftime env timestamp of Inl e \<Rightarrow> None | Inr s \<Rightarrow> Some s)"

definition feature_count_of :: "env \<Rightarrow> string \<Rightarrow> string \<Rightarrow> int option" where
  "feature_count_of env dataset_type dataset_path =
     (if dataset_type = ''FeatureClass'' \<or> dataset_type = ''Table''
      then (case arcpy_GetCount env dataset_path of Inl e \<Rightarrow> None | Inr n \<Rightarrow> Some n)
      else None)"

fun spatial_reference_of :: "sr_attr \<Rightarrow> string option" where
  "spatial_reference_of SR_Missing = None"
| "spatial_reference_of (SR_Raises e) = None"
| "spatial_reference_of SR_Falsy = None"
| "spatial_reference_of (SR_Object (Inl e)) = None"
| "spatial_reference_of (SR_Object (Inr n)) = Some n"

definition describe_dataset ::
  "env \<Rightarrow> string \<Rightarrow> string \<Rightarrow> string option \<Rightarrow> string \<Rightarrow> string option \<Rightarrow> exn + row" where
  "describe_dataset env gdb_name gdb_path gdb_last_modified dataset_path feature_dataset =
     (case arcpy_Describe env dataset_path of
        Inl e \<Rightarrow> Inl e
      | Inr d \<Rightarrow>
          let dataset_type = (case datasetType d of None \<Rightarrow> ''Unknown'' | Some t \<Rightarrow> t);
              geometry_type = (if dataset_type = ''FeatureClass'' then shapeType d else None);
              feature_count = feature_count_of env dataset_type dataset_path;
              spatial_reference = spatial_reference_of (spatialReference d)
          in Inr \<lparr>GDB_Name = gdb_name, GDB_Path = gdb_path,
                  GDB_Last_Modified = gdb_last_modified,
                  Feature_Dataset = feature_dataset,
                  Dataset_Name = desc_name d, Dataset_Path = dataset_path,
                  Dataset_Type = dataset_type, Geometry_Type = geometry_type,
                  Feature_Count = feature_count,
                  Spatial_Reference = spatial_reference\<rparr>)"

text \<open>\<open>for x in names: records.append(describe_dataset(..., os.path.join(base, x), ...))\<close>\<close>

fun describe_each ::
  "env \<Rightarrow> string \<Rightarrow> string \<Rightarrow> string option \<Rightarrow> string \<Rightarrow> string option \<Rightarrow>
   string list \<Rightarrow> row list \<Rightarrow> exn + row list" where
  "describe_each env gdb_name gdb_path glm base fds [] records = Inr records"
| "describe_each env gdb_name gdb_path glm base fds (x # xs) records =
     (case describe_dataset env gdb_name gdb_path glm (os_path_join env base x) fds of
        Inl e \<Rightarrow> Inl e
      | Inr r \<Rightarrow> describe_each env gdb_name gdb_path glm base fds xs (records @ [r]))"

definition arcpy_listing :: "env \<Rightarrow> listing \<Rightarrow> state \<Rightarrow> string list \<times> state" where
  "arcpy_listing env call st =
     ((case arcpy_list env call (workspace st) of None \<Rightarrow> [] | Some xs \<Rightarrow> xs),
      st\<lparr>call_log := call_log st @ [(call, workspace st)]\<rparr>)"

text \<open>The loop over the feature datasets of one geodatabase.\<close>

fun feature_datasets_loop ::
  "env \<Rightarrow> string \<Rightarrow> string \<Rightarrow> string option \<Rightarrow> string list \<Rightarrow> row list \<Rightarrow> state \<Rightarrow>
   (exn + row list) \<times> state" where
  "feature_datasets_loop env dirname gdb_path glm [] records st = (Inr records, st)"
| "feature_datasets_loop env dirname gdb_path glm (fds # rest) records st =
     (let fds_path = os_path_join env gdb_path fds;
          st1 = st\<lparr>workspace := Some fds_path\<rparr>;
          (fcs, st2) = arcpy_listing env ListFeatureClasses st1
      in (case describe_each env dirname gdb_path glm fds_path (Some fds) fcs records of
            Inl e \<Rightarrow> (Inl e, st2)
          | Inr records1 \<Rightarrow>
              feature_datasets_loop env dirname gdb_path glm rest records1
                (st2\<lparr>workspace := Some gdb_path\<rparr>)))"

text \<open>The body of the loop over directory names, for a name that passed the suffix test.\<close>

definition scan_geodatabase ::
  "env \<Rightarrow> string \<Rightarrow> string \<Rightarrow> row list \<Rightarrow> state \<Rightarrow> (exn + row list) \<times> state" where
  "scan_geodatabase env dirpath dirname records st =
     (let gdb_path = os_path_join env dirpath dirname;
          st1 = print (''Scanning geodatabase: '' @ gdb_path) st;
          glm = (case os_path_getmtime env gdb_path of
                   Inl e \<Rightarrow> None
                 | Inr t \<Rightarrow> format_timestamp env t);
          st2 = st1\<lparr>workspace := Some gdb_path\<rparr>;
          (fcs, st3) = arcpy_listing env ListFeatureClasses st2
      in (case describe_each env dirname gdb_path glm gdb_path None fcs records of
            Inl e \<Rightarrow> (Inl e, st3)
          | Inr records1 \<Rightarrow>
             (let (fdss, st4) = arcpy_listing env ListDatasets st3
              in (case feature_datasets_loop env dirname gdb_path glm fdss records1 st4 of
                    (Inl e, st5) \<Rightarrow> (Inl e, st5)
                  | (Inr records2, st5) \<Rightarrow>
                     (let (tables, st6) = arcpy_listing env ListTables st5
                      in (case describe_each env dirname gdb_path glm gdb_path None
                                 tables records2 of
                            Inl e \<Rightarrow> (Inl e, st6)
                          | Inr records3 \<Rightarrow>
                             (let (rasters, st7) = arcpy_listing env ListRasters st6
                              in (case describe_each env dirname gdb_path glm gdb_path None
                                         rasters records3 of
                                    Inl e \<Rightarrow> (Inl e, st7)
                                  | Inr records4 \<Rightarrow>
                                      (Inr records4, st7\<lparr>workspace := None\<rparr>)))))))))"

definition lower_char :: "char \<Rightarrow> char" where
  "lower_char c = (if CHR ''A'' \<le> c \<and> c \<le> CHR ''Z''
                   then char_of (of_char c + (32::nat)) else c)"

definition lower :: "string \<Rightarrow> string" where
  "lower s = map lower_char s"

definition endswith :: "string \<Rightarrow> string \<Rightarrow> bool" where
  "endswith s suf =
     (length suf \<le> length s \<and> drop (length s - length suf) s = suf)"

fun dirnames_loop ::
  "env \<Rightarrow> string \<Rightarrow> string list \<Rightarrow> row list \<Rightarrow> state \<Rightarrow> (exn + row list) \<times> state" where
  "dirnames_loop env dirpath [] records st = (Inr records, st)"
| "dirnames_loop env dirpath (dirname # rest) records st =
     (if \<not> endswith (lower dirname) ''.gdb''
      then dirnames_loop env dirpath rest records st
      else (case scan_geodatabase env dirpath dirname records st of
              (Inl e, st1) \<Rightarrow> (Inl e, st1)
            | (Inr records1, st1) \<Rightarrow> dirnames_loop env dirpath rest records1 st1))"

fun walk_loop ::
  "env \<Rightarrow> (string \<times> string list \<times> string list) list \<Rightarrow> row list \<Rightarrow> state \<Rightarrow>
   (exn + row list) \<times> state" where
  "walk_loop env [] records st = (Inr records, st)"
| "walk_loop env ((dirpath, dirnames, filenames) # rest) records st =
     (case dirnames_loop env dirpath dirnames records st of
        (Inl e, st1) \<Rightarrow> (Inl e, st1)
      | (Inr records1, st1) \<Rightarrow> walk_loop env rest records1 st1)"

definition inventory_geodatabases ::
  "env \<Rightarrow> string \<Rightarrow> state \<Rightarrow> (exn + row list) \<times> state" where
  "inventory_geodatabases env root_dir st = walk_loop env (os_walk env root_dir) [] st"

text \<open>
  \<open>df.sort_values(by=["GDB_Name", "Feature_Dataset", "Dataset_Name"])\<close> belongs to
  pandas. It is modelled as pandas documents it for several columns: ascending on each
  column, a missing value (None) after every present one, and rows that agree on all
  three columns left in the order they had.
\<close>

definition sort_columns :: "row \<Rightarrow> string \<times> (bool \<times> string) \<times> string" where
  "sort_columns r =
     (GDB_Name r,
      (case Feature_Dataset r of None \<Rightarrow> (True, []) | Some s \<Rightarrow> (False, s)),
      Dataset_Name r)"

definition sort_values :: "row list \<Rightarrow> row list" where
  "sort_values records = sort_key sort_columns records"

definition to_excel :: "string \<Rightarrow> row list \<Rightarrow> state \<Rightarrow> state" where
  "to_excel path df st = st\<lparr>excel_files := (excel_files st)(path \<mapsto> df)\<rparr>"

text \<open>\<open>ROOT_DIR\<close> and \<open>OUTPUT_EXCEL\<close> are placeholders in the source
  ("UPDATE ME"), so \<open>main\<close> takes them as arguments.\<close>

definition catalog_main :: "env \<Rightarrow> string \<Rightarrow> string \<Rightarrow> state \<Rightarrow> (exn + unit) \<times> state" where
  "catalog_main env ROOT_DIR OUTPUT_EXCEL st =
     (let st0 = print (''Starting geodatabase inventory for: '' @ ROOT_DIR) st
      in (case inventory_geodatabases env ROOT_DIR st0 of
            (Inl e, st1) \<Rightarrow> (Inl e, st1)
          | (Inr records, st1) \<Rightarrow>
              if records = [] then (Inr (), print ''No datasets found.'' st1)
              else
                (let df = sort_values records;
                     st2 = print (''Writing inventory to Excel: '' @ OUTPUT_EXCEL) st1;
                     st3 = to_excel OUTPUT_EXCEL df st2
                 in (Inr (), print ''Inventory complete.'' st3))))"


section \<open>layer\_metadata.py\<close>

text \<open>
  \<open>extract_layer_metadata\<close> returns a list whose first element is the list of
  table-of-contents lines and whose other elements are the section strings.
\<close>

datatype item = Contents "string list" | Section string

definition and_then :: "exn + 'a \<Rightarrow> ('a \<Rightarrow> exn + 'b) \<Rightarrow> exn + 'b" where
  "and_then x f = (case x of Inl e \<Rightarrow> Inl e | Inr v \<Rightarrow> f v)"

text \<open>The first inner \<open>try\<close>: the data source's own timestamps; \<open>except: pass\<close>.\<close>

definition source_metadata :: "env \<Rightarrow> string \<Rightarrow> string list" where
  "source_metadata env data_source =
     (if os_path_exists env data_source
      then (case and_then (os_stat env data_source) (\<lambda>source_stats.
                 and_then (strftime env (st_ctime source_stats)) (\<lambda>source_created.
                 and_then (strftime env (st_mtime source_stats)) (\<lambda>source_modified.
                 Inr (''Data Source Metadata:\<newline>\<newline>''
                      @ ''- Created: '' @ source_created @ ''\<newline>''
                      @ ''- Last Modified: '' @ source_modified @ ''\<newline>\<newline>'')))) of
              Inl e \<Rightarrow> []
            | Inr source_info \<Rightarrow> [source_info])
      else [])"

definition field_entry :: "field \<Rightarrow> string" where
  "field_entry f =
     ''- '' @ field_name f @ ''\<newline>''
     @ ''  - Type: '' @ field_type f @ ''\<newline>''
     @ ''  - Length: '' @ field_length f @ ''\<newline>''
     @ ''  - Alias: '' @ field_aliasName f @ ''\<newline>''
     @ ''  - Nullable: '' @ field_isNullable f @ ''\<newline>\<newline>''"

definition fields_section :: "env \<Rightarrow> string \<Rightarrow> string" where
  "fields_section env data_source =
     (case arcpy_da_Describe_fields env data_source of
        Inl e \<Rightarrow> ''Error reading fields: '' @ str_exn e @ ''\<newline>\<newline>''
      | Inr flds \<Rightarrow> ''### Fields:\<newline>\<newline>'' @ concat (map field_entry flds))"

definition layer_properties :: "layer \<Rightarrow> exn + string" where
  "layer_properties l =
     and_then (metadata_description l) (\<lambda>description.
     and_then (visible l) (\<lambda>vis.
     and_then (metadata_minScale l) (\<lambda>min_scale.
     and_then (metadata_maxScale l) (\<lambda>max_scale.
     and_then (transparency l) (\<lambda>transp.
     let layer_props = ''### Layer Properties:\<newline>\<newline>''
           @ ''- Description: '' @ description @ ''\<newline>''
           @ ''- Visible: '' @ vis @ ''\<newline>''
           @ ''- Min Scale: '' @ min_scale @ ''\<newline>''
           @ ''- Max Scale: '' @ max_scale @ ''\<newline>''
           @ ''- Transparency: '' @ transp @ ''%\<newline>''
     in and_then (supports l ''DEFINITIONQUERY'') (\<lambda>has_query.
          if has_query
          then and_then (definitionQuery l) (\<lambda>query.
                 Inr (layer_props @ ''- Definition Query: '' @ query @ ''\<newline>''
                      @ ''\<newline>''))
          else Inr (layer_props @ ''\<newline>'')))))))"

definition layer_properties_section :: "layer \<Rightarrow> string" where
  "layer_properties_section l =
     (case layer_properties l of
        Inl e \<Rightarrow> ''Error reading layer properties: '' @ str_exn e @ ''\<newline>\<newline>''
      | Inr s \<Rightarrow> s)"

definition optional_line :: "string \<Rightarrow> string option \<Rightarrow> string" where
  "optional_line label attr =
     (case attr of None \<Rightarrow> [] | Some v \<Rightarrow> label @ v @ ''\<newline>'')"

definition symbol_lines :: "symbol option \<Rightarrow> exn + string" where
  "symbol_lines attr =
     (case attr of
        None \<Rightarrow> Inr []
      | Some smb \<Rightarrow>
          and_then (symbol_type smb) (\<lambda>t.
            Inr (''- Symbol Type: '' @ t @ ''\<newline>''
                 @ optional_line ''- Color: RGB'' (symbol_color smb)
                 @ optional_line ''- Size: '' (symbol_size smb))))"

definition symbology :: "layer \<Rightarrow> exn + string" where
  "symbology l =
     and_then (supports l ''SYMBOLOGY'') (\<lambda>has_symbology.
       if has_symbology
       then and_then (symbology_renderer l) (\<lambda>r.
            and_then (renderer_type r) (\<lambda>t.
            and_then (symbol_lines (renderer_symbol r)) (\<lambda>sym_lines.
              Inr (''### Symbology:\<newline>\<newline>''
                   @ ''- Renderer Type: '' @ t @ ''\<newline>''
                   @ sym_lines
                   @ optional_line ''- Classification Field(s): '' (renderer_fields r)
                   @ optional_line ''- Class Breaks: '' (renderer_classBreakCount r)
                   @ optional_line ''- Number of Groups: '' (renderer_groups_len r)
                   @ ''\<newline>''))))
       else Inr (''### Symbology:\<newline>\<newline>'' @ ''\<newline>''))"

definition symbology_section :: "layer \<Rightarrow> string" where
  "symbology_section l =
     (case symbology l of
        Inl e \<Rightarrow> ''Error reading symbology: '' @ str_exn e @ ''\<newline>\<newline>''
      | Inr s \<Rightarrow> s)"

text \<open>
  The body of the loop over the layers of one file: the sections it appends, or the
  exception that leaves the body before anything was appended for this layer. After the
  layer's header is appended, every statement sits in a \<open>try\<close> of its own.
\<close>

definition process_layer :: "env \<Rightarrow> layer \<Rightarrow> exn + string list" where
  "process_layer env l =
     and_then (supports l ''DATASOURCE'') (\<lambda>has_source.
       if has_source
       then and_then (layer_name l) (\<lambda>name.
            and_then (dataSource l) (\<lambda>data_source.
              Inr ([''## Layer: '' @ name @ ''\<newline>\<newline>''
                    @ ''Source: '' @ data_source @ ''\<newline>\<newline>'']
                   @ source_metadata env data_source
                   @ [fields_section env data_source]
                   @ [layer_properties_section l]
                   @ [symbology_section l])))
       else Inr [])"

fun layers_loop :: "env \<Rightarrow> layer list \<Rightarrow> string list \<Rightarrow> exn option \<times> string list" where
  "layers_loop env [] data_list = (None, data_list)"
| "layers_loop env (l # ls) data_list =
     (case process_layer env l of
        Inl e \<Rightarrow> (Some e, data_list)
      | Inr sections \<Rightarrow> layers_loop env ls (data_list @ sections))"

text \<open>
  The body of the outer \<open>try\<close> for one file: the exception caught by
  \<open>except Exception\<close> if any, and the two lists as they stand at that moment.
\<close>

definition process_file ::
  "env \<Rightarrow> string \<Rightarrow> string list \<Rightarrow> string list \<Rightarrow> exn option \<times> string list \<times> string list" where
  "process_file env file_path data_list contents =
     (case arcpy_mp_LayerFile env file_path of
        Inl e \<Rightarrow> (Some e, data_list, contents)
      | Inr lf \<Rightarrow>
     (case os_stat env file_path of
        Inl e \<Rightarrow> (Some e, data_list, contents)
      | Inr file_stats \<Rightarrow>
     (case strftime env (st_ctime file_stats) of
        Inl e \<Rightarrow> (Some e, data_list, contents)
      | Inr file_created \<Rightarrow>
     (case strftime env (st_mtime file_stats) of
        Inl e \<Rightarrow> (Some e, data_list, contents)
      | Inr file_modified \<Rightarrow>
         (let file_info = ''### File Information:\<newline>\<newline>''
                @ ''- File Path: '' @ file_path @ ''\<newline>''
                @ ''- File Name: '' @ os_path_basename env file_path @ ''\<newline>''
                @ ''- Created: '' @ file_created @ ''\<newline>''
                @ ''- Last Modified: '' @ file_modified @ ''\<newline>''
                @ ''- File Size: '' @ format_kb env (st_size file_stats)
                @ '' KB\<newline>\<newline>'';
              data_list1 = data_list @ [file_info];
              contents1 = contents @ [''- '' @ file_path @ ''\<newline>'']
          in (case listLayers lf of
                Inl e \<Rightarrow> (Some e, data_list1, contents1)
              | Inr layers \<Rightarrow>
                  (case layers_loop env layers data_list1 of
                     (raised, data_list2) \<Rightarrow> (raised, data_list2, contents1))))))))"

fun files_loop ::
  "env \<Rightarrow> string list \<Rightarrow> string list \<Rightarrow> string list \<Rightarrow> state \<Rightarrow>
   string list \<times> string list \<times> state" where
  "files_loop env [] data_list contents st = (data_list, contents, st)"
| "files_loop env (file_path # rest) data_list contents st =
     (case process_file env file_path data_list contents of
        (Some e, data_list1, contents1) \<Rightarrow>
          files_loop env rest data_list1 contents1
            (print (''Error processing '' @ file_path @ '': '' @ str_exn e) st)
      | (None, data_list1, contents1) \<Rightarrow> files_loop env rest data_list1 contents1 st)"

definition extract_layer_metadata :: "env \<Rightarrow> string list \<Rightarrow> state \<Rightarrow> item list \<times> state" where
  "extract_layer_metadata env lyrx_files st =
     (case files_loop env lyrx_files [] [''### Table of Contents \<newline>\<newline>''] st of
        (data_list, contents, st1) \<Rightarrow> (Contents contents # map Section data_list, st1))"

text \<open>
  Files opened with mode \<open>'w'\<close>: opening truncates, each \<open>write\<close> appends. What was
  written stays in the file when an exception leaves the \<open>with\<close> block.
\<close>

definition open_w :: "string \<Rightarrow> state \<Rightarrow> state" where
  "open_w path st = st\<lparr>text_files := (text_files st)(path \<mapsto> [])\<rparr>"

definition fwrite :: "string \<Rightarrow> string \<Rightarrow> state \<Rightarrow> state" where
  "fwrite path data st =
     st\<lparr>text_files := (text_files st)(path \<mapsto>
          (case text_files st path of None \<Rightarrow> data | Some written \<Rightarrow> written @ data))\<rparr>"

text \<open>\<open>for data in x: md_file.write(data)\<close>: iterating over a list yields its elements,
  iterating over a string yields its characters.\<close>

fun iterate :: "item \<Rightarrow> string list" where
  "iterate (Contents lines) = lines"
| "iterate (Section s) = map (\<lambda>c. [c]) s"

fun write_each :: "string \<Rightarrow> string list \<Rightarrow> state \<Rightarrow> state" where
  "write_each path [] st = st"
| "write_each path (data # rest) st = write_each path rest (fwrite path data st)"

definition write_metadata_to_file ::
  "env \<Rightarrow> string \<Rightarrow> item list \<Rightarrow> string \<Rightarrow> state \<Rightarrow> (exn + unit) \<times> state" where
  "write_metadata_to_file env DIRECTORY_PATH data_list output_file st =
     (let current_time = now_strftime env (ticks st);
          st1 = st\<lparr>ticks := Suc (ticks st)\<rparr>;
          st2 = open_w output_file st1;
          st3 = fwrite output_file ''# Layer Metadata Report\<newline>\<newline>'' st2;
          st4 = fwrite output_file
                  (''**Generated:** '' @ current_time @ ''\<newline>\<newline>'') st3;
          st5 = fwrite output_file ''**Script Version:** 1.0\<newline>\<newline>'' st4;
          st6 = fwrite output_file
                  (''**Author:** ''
                   @ (case os_getenv_USERNAME env of None \<Rightarrow> ''Unknown'' | Some u \<Rightarrow> u)
                   @ ''\<newline>\<newline>'') st5;
          st7 = fwrite output_file
                  (''**Source Directory:** '' @ DIRECTORY_PATH @ ''\<newline>\<newline>'') st6;
          st8 = fwrite output_file ''---\<newline>\<newline>'' st7
      in (case data_list of
            [] \<Rightarrow> (Inl IndexError, st8)
          | first # others \<Rightarrow>
             (let st9 = write_each output_file (iterate first) st8;
                  st10 = fwrite output_file ''---\<newline>\<newline>'' st9
              in (case others of
                    [] \<Rightarrow> (Inl IndexError, st10)
                  | second # further \<Rightarrow>
                     (let st11 = write_each output_file (iterate second) st10;
                          st12 = fwrite output_file ''\<newline>---\<newline>\<newline>'' st11;
                          st13 = fwrite output_file ''**End of Report**\<newline>\<newline>'' st12;
                          st14 = fwrite output_file
                                   (''Report completed at: '' @ current_time @ ''\<newline>'')
                                   st13
                      in (Inr (), st14))))))"

text \<open>\<open>str(len(lyrx_files))\<close>: the decimal digits of a natural number.\<close>

fun str_nat :: "nat \<Rightarrow> string" where
  "str_nat n =
     (if n < 10 then [char_of (48 + n)]
      else str_nat (n div 10) @ [char_of (48 + n mod 10)])"

definition OUTPUT_FILENAME :: string where
  "OUTPUT_FILENAME = ''transportation_layer_metadata.txt''"

text \<open>\<open>DIRECTORY_PATH\<close> and \<open>ADMIN_DIRECTORY_PATH\<close> are empty placeholders in the source,
  so \<open>main\<close> takes them as arguments.\<close>

definition metadata_main ::
  "env \<Rightarrow> string \<Rightarrow> string \<Rightarrow> state \<Rightarrow> (exn + unit) \<times> state" where
  "metadata_main env DIRECTORY_PATH ADMIN_DIRECTORY_PATH st =
     (let lyrx_files = glob_glob env (os_path_join env DIRECTORY_PATH ''*.lyrx'')
      in if lyrx_files = []
         then (Inr (), print (''No .lyrx files found in '' @ DIRECTORY_PATH) st)
         else
          (let st1 = print (''Found '' @ str_nat (length lyrx_files)
                            @ '' layer files to process'') st;
               (data_list, st2) = extract_layer_metadata env lyrx_files st1;
               output_file = os_path_join env (os_path_dirname env DIRECTORY_PATH)
                               OUTPUT_FILENAME;
               admin_output_file = os_path_join env ADMIN_DIRECTORY_PATH OUTPUT_FILENAME
           in (case write_metadata_to_file env DIRECTORY_PATH data_list output_file st2 of
                 (Inl e, st3) \<Rightarrow> (Inl e, st3)
               | (Inr u, st3) \<Rightarrow>
                  (case write_metadata_to_file env DIRECTORY_PATH data_list
                          admin_output_file st3 of
                     (Inl e, st4) \<Rightarrow> (Inl e, st4)
                   | (Inr v, st4) \<Rightarrow>
                       (Inr (), print (''Metadata written to: '' @ output_file) st4)))))"


section \<open>Vocabulary of the properties\<close>

definition scanning_line :: "string \<Rightarrow> string" where
  "scanning_line gdb_path = ''Scanning geodatabase: '' @ gdb_path"

text \<open>The geodatabase paths a walk offers: per walked directory, its sub-directory
  names with the suffix, joined to the directory's path; file names play no part.\<close>

definition dir_candidates :: "env \<Rightarrow> string \<Rightarrow> string list \<Rightarrow> string list" where
  "dir_candidates env dirpath dirnames =
     map (os_path_join env dirpath)
       (filter (\<lambda>dirname. endswith (lower dirname) ''.gdb'') dirnames)"

definition gdb_candidates ::
  "env \<Rightarrow> (string \<times> string list \<times> string list) list \<Rightarrow> string list" where
  "gdb_candidates env walk =
     concat (map (\<lambda>(dirpath, dirnames, filenames). dir_candidates env dirpath dirnames) walk)"

definition listing_or_empty :: "env \<Rightarrow> listing \<Rightarrow> string option \<Rightarrow> string list" where
  "listing_or_empty env call ws =
     (case arcpy_list env call ws of None \<Rightarrow> [] | Some xs \<Rightarrow> xs)"

text \<open>The listing calls of one geodatabase's inventory, each with the workspace it is
  meant to run under: the top-level calls under the geodatabase path, the nested call of
  each feature dataset under that feature dataset's path.\<close>

definition expected_listing_calls :: "env \<Rightarrow> string \<Rightarrow> (listing \<times> string option) list" where
  "expected_listing_calls env gdb_path =
     [(ListFeatureClasses, Some gdb_path), (ListDatasets, Some gdb_path)]
     @ map (\<lambda>fds. (ListFeatureClasses, Some (os_path_join env gdb_path fds)))
         (listing_or_empty env ListDatasets (Some gdb_path))
     @ [(ListTables, Some gdb_path), (ListRasters, Some gdb_path)]"

text \<open>
  The datasets a walk leads to, in the order the inventory reaches them, each with the
  arguments \<open>describe_dataset\<close> is called with. They are fixed by the walk and by
  what the listing calls return under the workspaces of \<open>expected_listing_calls\<close>;
  how the datasets describe plays no part.
\<close>

record dataset_ref =
  ref_gdb_name :: string
  ref_gdb_path :: string
  ref_gdb_last_modified :: "string option"
  ref_path :: string
  ref_feature_dataset :: "string option"

definition dataset_refs ::
  "env \<Rightarrow> string \<Rightarrow> string \<Rightarrow> string option \<Rightarrow> string \<Rightarrow> string option \<Rightarrow> string list \<Rightarrow>
   dataset_ref list" where
  "dataset_refs env gdb_name gdb_path glm base fds names =
     map (\<lambda>n. \<lparr>ref_gdb_name = gdb_name, ref_gdb_path = gdb_path,
                ref_gdb_last_modified = glm, ref_path = os_path_join env base n,
                ref_feature_dataset = fds\<rparr>) names"

definition feature_dataset_refs ::
  "env \<Rightarrow> string \<Rightarrow> string \<Rightarrow> string option \<Rightarrow> string list \<Rightarrow> dataset_ref list" where
  "feature_dataset_refs env gdb_name gdb_path glm fdss =
     concat (map (\<lambda>fds.
        dataset_refs env gdb_name gdb_path glm (os_path_join env gdb_path fds) (Some fds)
          (listing_or_empty env ListFeatureClasses (Some (os_path_join env gdb_path fds))))
        fdss)"

definition gdb_refs :: "env \<Rightarrow> string \<Rightarrow> string \<Rightarrow> dataset_ref list" where
  "gdb_refs env dirpath dirname =
     (let gdb_path = os_path_join env dirpath dirname;
          glm = (case os_path_getmtime env gdb_path of
                   Inl e \<Rightarrow> None
                 | Inr t \<Rightarrow> format_timestamp env t)
      in dataset_refs env dirname gdb_path glm gdb_path None
           (listing_or_empty env ListFeatureClasses (Some gdb_path))
         @ feature_dataset_refs env dirname gdb_path glm
             (listing_or_empty env ListDatasets (Some gdb_path))
         @ dataset_refs env dirname gdb_path glm gdb_path None
             (listing_or_empty env ListTables (Some gdb_path))
         @ dataset_refs env dirname gdb_path glm gdb_path None
             (listing_or_empty env ListRasters (Some gdb_path)))"

definition dir_refs :: "env \<Rightarrow> string \<Rightarrow> string list \<Rightarrow> dataset_ref list" where
  "dir_refs env dirpath dirnames =
     concat (map (gdb_refs env dirpath)
               (filter (\<lambda>dirname. endswith (lower dirname) ''.gdb'') dirnames))"

definition walk_refs ::
  "env \<Rightarrow> (string \<times> string list \<times> string list) list \<Rightarrow> dataset_ref list" where
  "walk_refs env walk =
     concat (map (\<lambda>(dirpath, dirnames, filenames). dir_refs env dirpath dirnames) walk)"

text \<open>Describing a list of datasets one after the other, up to the first exception.\<close>

fun describe_refs :: "env \<Rightarrow> dataset_ref list \<Rightarrow> row list \<Rightarrow> exn + row list" where
  "describe_refs env [] records = Inr records"
| "describe_refs env (t # ts) records =
     (case describe_dataset env (ref_gdb_name t) (ref_gdb_path t) (ref_gdb_last_modified t)
             (ref_path t) (ref_feature_dataset t) of
        Inl e \<Rightarrow> Inl e
      | Inr r \<Rightarrow> describe_refs env ts (records @ [r]))"

text \<open>The text of a complete report, given the clock reading of the call and the two
  elements of the extraction result that the writer reads.\<close>

definition report_header :: "env \<Rightarrow> string \<Rightarrow> string \<Rightarrow> string" where
  "report_header env DIRECTORY_PATH current_time =
     ''# Layer Metadata Report\<newline>\<newline>''
     @ ''**Generated:** '' @ current_time @ ''\<newline>\<newline>''
     @ ''**Script Version:** 1.0\<newline>\<newline>''
     @ ''**Author:** ''
     @ (case os_getenv_USERNAME env of None \<Rightarrow> ''Unknown'' | Some u \<Rightarrow> u)
     @ ''\<newline>\<newline>''
     @ ''**Source Directory:** '' @ DIRECTORY_PATH @ ''\<newline>\<newline>''
     @ ''---\<newline>\<newline>''"

definition report_footer :: "string \<Rightarrow> string" where
  "report_footer current_time =
     ''\<newline>---\<newline>\<newline>''
     @ ''**End of Report**\<newline>\<newline>''
     @ ''Report completed at: '' @ current_time @ ''\<newline>''"

definition report_text :: "env \<Rightarrow> string \<Rightarrow> string \<Rightarrow> item \<Rightarrow> item \<Rightarrow> string" where
  "report_text env DIRECTORY_PATH current_time first second =
     report_header env DIRECTORY_PATH current_time
     @ concat (iterate first) @ ''---\<newline>\<newline>''
     @ concat (iterate second)
     @ report_footer current_time"

section \<open>Example runs\<close>

definition state0 :: state where
  "state0 = \<lparr>workspace = None, call_log = [], stdout = [],
             excel_files = Map.empty, text_files = Map.empty, ticks = 0\<rparr>"

definition env0 :: env where
  "env0 = \<lparr>os_walk = (\<lambda>root. []),
           os_path_join = (\<lambda>a b. a @ ''/'' @ b),
           os_path_dirname = (\<lambda>p. ''out''),
           os_path_basename = (\<lambda>p. p),
           os_path_exists = (\<lambda>p. False),
           os_path_getmtime = (\<lambda>p. Inr 0),
           os_stat = (\<lambda>p. Inr \<lparr>st_ctime = 0, st_mtime = 0, st_size = 2048\<rparr>),
           os_getenv_USERNAME = None,
           glob_glob = (\<lambda>pattern. []),
           strftime = (\<lambda>t. Inr ''1970-01-01 00:00:00''),
           format_kb = (\<lambda>n. ''2.00''),
           now_strftime = (\<lambda>k. ''2024-05-01 10:00:00''),
           arcpy_Describe = (\<lambda>p. Inl (Error ''does not exist'')),
           arcpy_GetCount = (\<lambda>p. Inl (Error ''no count'')),
           arcpy_list = (\<lambda>call ws. None),
           arcpy_da_Describe_fields = (\<lambda>p. Inl (Error ''no fields'')),
           arcpy_mp_LayerFile = (\<lambda>p. Inl (Error ''cannot open''))\<rparr>"

text \<open>
  A tree \<open>root\<close> with the geodatabase folder \<open>A.GDB\<close>, a folder \<open>docs\<close> and a plain file
  \<open>notes.gdb\<close>. The geodatabase holds the feature class \<open>roads\<close>, the feature dataset
  \<open>transport\<close> with the feature class \<open>rail\<close>, and the table \<open>owners\<close>, whose row
  count and spatial reference cannot be read.
\<close>

definition feature_class_desc :: "string \<Rightarrow> desc" where
  "feature_class_desc n = \<lparr>datasetType = Some ''FeatureClass'', shapeType = Some ''Polyline'',
      spatialReference = SR_Object (Inr ''WGS 1984''), desc_name = n\<rparr>"

definition table_desc :: "string \<Rightarrow> desc" where
  "table_desc n = \<lparr>datasetType = Some ''Table'', shapeType = None,
      spatialReference = SR_Raises (Error ''unreadable''), desc_name = n\<rparr>"

definition gdb_env :: env where
  "gdb_env = env0\<lparr>
     os_walk := (\<lambda>root. [(root, [''A.GDB'', ''docs''], [''notes.gdb''])]),
     arcpy_list := (\<lambda>call ws.
        if ws = Some ''root/A.GDB'' then
          (case call of
             ListFeatureClasses \<Rightarrow> Some [''roads'']
           | ListDatasets \<Rightarrow> Some [''transport'']
           | ListTables \<Rightarrow> Some [''owners'']
           | ListRasters \<Rightarrow> None)
        else if ws = Some ''root/A.GDB/transport'' \<and> call = ListFeatureClasses
        then Some [''rail'']
        else None),
     arcpy_Describe := (\<lambda>p.
        if p = ''root/A.GDB/roads'' then Inr (feature_class_desc ''roads'')
        else if p = ''root/A.GDB/transport/rail'' then Inr (feature_class_desc ''rail'')
        else if p = ''root/A.GDB/owners'' then Inr (table_desc ''owners'')
        else Inl (Error ''does not exist'')),
     arcpy_GetCount := (\<lambda>p.
        if p = ''root/A.GDB/owners'' then Inl (Error ''locked'') else Inr 7)\<rparr>"

text \<open>The same tree, where describing \<open>rail\<close> raises.\<close>

definition gdb_env_describe_fails :: env where
  "gdb_env_describe_fails = gdb_env\<lparr>
     arcpy_Describe := (\<lambda>p.
        if p = ''root/A.GDB/transport/rail'' then Inl (Error ''cannot describe'')
        else arcpy_Describe gdb_env p)\<rparr>"

text \<open>The same tree, where the row count and the spatial reference of \<open>roads\<close>, the
  first dataset reached, cannot be read.\<close>

definition gdb_env_roads_fail :: env where
  "gdb_env_roads_fail = gdb_env\<lparr>
     arcpy_Describe := (\<lambda>p.
        if p = ''root/A.GDB/roads''
        then Inr ((feature_class_desc ''roads'')
                    \<lparr>spatialReference := SR_Object (Inl (Error ''no name''))\<rparr>)
        else arcpy_Describe gdb_env p),
     arcpy_GetCount := (\<lambda>p.
        if p = ''root/A.GDB/roads'' then Inl (Error ''locked'') else Inr 7)\<rparr>"

text \<open>A tree without geodatabase folders, holding a plain file named like one.\<close>

definition no_gdb_env :: env where
  "no_gdb_env = env0\<lparr>os_walk := (\<lambda>root. [(root, [''docs''], [''notes.gdb''])])\<rparr>"

definition row_of :: "string option \<Rightarrow> string \<Rightarrow> string \<Rightarrow> string \<Rightarrow> string option \<Rightarrow>
    int option \<Rightarrow> string option \<Rightarrow> row" where
  "row_of fds n p t g c sr =
     \<lparr>GDB_Name = ''A.GDB'', GDB_Path = ''root/A.GDB'',
      GDB_Last_Modified = Some ''1970-01-01 00:00:00'', Feature_Dataset = fds,
      Dataset_Name = n, Dataset_Path = p, Dataset_Type = t, Geometry_Type = g,
      Feature_Count = c, Spatial_Reference = sr\<rparr>"

definition roads_row :: row where
  "roads_row = row_of None ''roads'' ''root/A.GDB/roads'' ''FeatureClass''
                 (Some ''Polyline'') (Some 7) (Some ''WGS 1984'')"

definition rail_row :: row where
  "rail_row = row_of (Some ''transport'') ''rail'' ''root/A.GDB/transport/rail''
                ''FeatureClass'' (Some ''Polyline'') (Some 7) (Some ''WGS 1984'')"

definition owners_row :: row where
  "owners_row = row_of None ''owners'' ''root/A.GDB/owners'' ''Table'' None None None"

definition ref_of :: "string option \<Rightarrow> string \<Rightarrow> dataset_ref" where
  "ref_of fds p =
     \<lparr>ref_gdb_name = ''A.GDB'', ref_gdb_path = ''root/A.GDB'',
      ref_gdb_last_modified = Some ''1970-01-01 00:00:00'', ref_path = p,
      ref_feature_dataset = fds\<rparr>"

definition roads_fail_rows :: "row list" where
  "roads_fail_rows =
     [roads_row\<lparr>Feature_Count := None, Spatial_Reference := None\<rparr>,
      rail_row,
      owners_row\<lparr>Feature_Count := Some 7\<rparr>]"

definition example_refs :: "dataset_ref list" where
  "example_refs =
     [ref_of None ''root/A.GDB/roads'',
      ref_of (Some ''transport'') ''root/A.GDB/transport/rail'',
      ref_of None ''root/A.GDB/owners'']"



text \<open>
  Two layer files: \<open>in/bad.lyrx\<close> cannot be opened, \<open>in/good.lyrx\<close> holds one layer
  with a data source and one field.
\<close>

definition roads_layer :: layer where
  "roads_layer = \<lparr>supports = (\<lambda>capability. Inr (capability = ''DATASOURCE'')),
      layer_name = Inr ''Roads'', dataSource = Inr ''db/roads'',
      metadata_description = Inr ''Road centrelines'', visible = Inr ''True'',
      metadata_minScale = Inr ''0.0'', metadata_maxScale = Inr ''0.0'',
      transparency = Inr ''0'', definitionQuery = Inr [],
      symbology_renderer = Inl (Error ''no renderer'')\<rparr>"

definition lyrx_env_at :: "(nat \<Rightarrow> string) \<Rightarrow> env" where
  "lyrx_env_at clock = env0\<lparr>
     glob_glob := (\<lambda>pattern. [''in/bad.lyrx'', ''in/good.lyrx'']),
     now_strftime := clock,
     arcpy_mp_LayerFile := (\<lambda>p.
        if p = ''in/good.lyrx'' then Inr \<lparr>listLayers = Inr [roads_layer]\<rparr>
        else Inl (Error ''cannot open'')),
     arcpy_da_Describe_fields := (\<lambda>p.
        Inr [\<lparr>field_name = ''NAME'', field_type = ''String'', field_length = ''50'',
              field_aliasName = ''Name'', field_isNullable = ''True''\<rparr>])\<rparr>"

text \<open>The clock stands still during the run, or is one second further at its second
  reading.\<close>

definition lyrx_env :: env where
  "lyrx_env = lyrx_env_at (\<lambda>k. ''2024-05-01 10:00:00'')"

definition lyrx_env_clock_ticks :: env where
  "lyrx_env_clock_ticks =
     lyrx_env_at (\<lambda>k. if k = 0 then ''2024-05-01 10:00:00'' else ''2024-05-01 10:00:01'')"

text \<open>One matched layer file, which cannot be opened.\<close>

definition all_fail_env :: env where
  "all_fail_env = env0\<lparr>glob_glob := (\<lambda>pattern. [''in/bad.lyrx''])\<rparr>"

definition good_file_info :: string where
  "good_file_info = ''### File Information:\<newline>\<newline>''
     @ ''- File Path: in/good.lyrx\<newline>''
     @ ''- File Name: in/good.lyrx\<newline>''
     @ ''- Created: 1970-01-01 00:00:00\<newline>''
     @ ''- Last Modified: 1970-01-01 00:00:00\<newline>''
     @ ''- File Size: 2.00 KB\<newline>\<newline>''"

definition good_sections :: "string list" where
  "good_sections =
     [good_file_info,
      ''## Layer: Roads\<newline>\<newline>Source: db/roads\<newline>\<newline>'',
      ''### Fields:\<newline>\<newline>- NAME\<newline>  - Type: String\<newline>''
        @ ''  - Length: 50\<newline>  - Alias: Name\<newline>  - Nullable: True\<newline>\<newline>'',
      ''### Layer Properties:\<newline>\<newline>- Description: Road centrelines\<newline>''
        @ ''- Visible: True\<newline>- Min Scale: 0.0\<newline>- Max Scale: 0.0\<newline>''
        @ ''- Transparency: 0%\<newline>\<newline>'',
      ''### Symbology:\<newline>\<newline>\<newline>'']"

definition good_contents :: "string list" where
  "good_contents = [''### Table of Contents \<newline>\<newline>'', ''- in/good.lyrx\<newline>'']"

section \<open>The inventory: loop lemmas\<close>

lemma arcpy_listing_simps:
  "fst (arcpy_listing env call st) = listing_or_empty env call (workspace st)"
  "snd (arcpy_listing env call st) = st\<lparr>call_log := call_log st @ [(call, workspace st)]\<rparr>"
  by (simp_all add: arcpy_listing_def listing_or_empty_def)

lemma fds_loop_frame:
  "feature_datasets_loop env dn gp glm fdss recs st = (res, st') \<Longrightarrow>
   stdout st' = stdout st \<and> excel_files st' = excel_files st \<and>
   text_files st' = text_files st \<and> ticks st' = ticks st"
proof (induction fdss arbitrary: recs st)
  case Nil
  then show ?case by simp
next
  case (Cons fds rest)
  then show ?case
    by (auto simp: arcpy_listing_def Let_def split: sum.splits dest!: Cons.IH)
qed

lemma fds_loop_workspace:
  "feature_datasets_loop env dn gp glm fdss recs st = (Inr r, st') \<Longrightarrow>
   workspace st' = (if fdss = [] then workspace st else Some gp)"
proof (induction fdss arbitrary: recs st)
  case Nil
  then show ?case by simp
next
  case (Cons fds rest)
  then show ?case
    by (auto simp: arcpy_listing_def Let_def split: sum.splits if_splits dest!: Cons.IH)
qed

lemma fds_loop_log_ok:
  "feature_datasets_loop env dn gp glm fdss recs st = (Inr r, st') \<Longrightarrow>
   call_log st' = call_log st
      @ map (\<lambda>fds. (ListFeatureClasses, Some (os_path_join env gp fds))) fdss"
proof (induction fdss arbitrary: recs st)
  case Nil
  then show ?case by simp
next
  case (Cons fds rest)
  then show ?case
    by (auto simp: arcpy_listing_def Let_def split: sum.splits dest!: Cons.IH)
qed

lemma fds_loop_log_any:
  "feature_datasets_loop env dn gp glm fdss recs st = (res, st') \<Longrightarrow>
   \<exists>n. call_log st' = call_log st
      @ take n (map (\<lambda>fds. (ListFeatureClasses, Some (os_path_join env gp fds))) fdss)"
proof (induction fdss arbitrary: recs st)
  case Nil
  then show ?case by simp
next
  case (Cons fds rest)
  show ?case
  proof (cases "describe_each env dn gp glm (os_path_join env gp fds) (Some fds)
                  (fst (arcpy_listing env ListFeatureClasses
                          (st\<lparr>workspace := Some (os_path_join env gp fds)\<rparr>))) recs")
    case (Inl e)
    with Cons.prems have "call_log st' = call_log st
        @ take 1 (map (\<lambda>fds. (ListFeatureClasses, Some (os_path_join env gp fds))) (fds # rest))"
      by (auto simp: arcpy_listing_def Let_def)
    then show ?thesis by blast
  next
    case (Inr recs1)
    define st2 where
      "st2 = (snd (arcpy_listing env ListFeatureClasses
                (st\<lparr>workspace := Some (os_path_join env gp fds)\<rparr>)))\<lparr>workspace := Some gp\<rparr>"
    have st2: "call_log st2
        = call_log st @ [(ListFeatureClasses, Some (os_path_join env gp fds))]"
      by (simp add: st2_def arcpy_listing_def)
    have run: "feature_datasets_loop env dn gp glm rest recs1 st2 = (res, st')"
      using Cons.prems Inr by (simp add: st2_def arcpy_listing_def Let_def)
    from Cons.IH [OF run] obtain n where
      "call_log st' = call_log st2
        @ take n (map (\<lambda>fds. (ListFeatureClasses, Some (os_path_join env gp fds))) rest)"
      by blast
    with st2 have "call_log st' = call_log st
        @ take (Suc n) (map (\<lambda>fds. (ListFeatureClasses, Some (os_path_join env gp fds))) (fds # rest))"
      by simp
    then show ?thesis by blast
  qed
qed


lemma fds_loop_ok:
  "feature_datasets_loop env dn gp glm fdss recs st = (Inr r, st') \<Longrightarrow>
   call_log st' = call_log st
      @ map (\<lambda>fds. (ListFeatureClasses, Some (os_path_join env gp fds))) fdss \<and>
   workspace st' = (if fdss = [] then workspace st else Some gp)"
  using fds_loop_log_ok fds_loop_workspace by blast

lemma scan_frame:
  "scan_geodatabase env dp dn recs st = (res, st') \<Longrightarrow>
   stdout st' = stdout st @ [scanning_line (os_path_join env dp dn)] \<and>
   excel_files st' = excel_files st \<and>
   text_files st' = text_files st \<and> ticks st' = ticks st"
  by (auto simp: scan_geodatabase_def Let_def arcpy_listing_def print_def scanning_line_def
           split: sum.splits prod.splits dest!: fds_loop_frame)

lemma scan_log_ok:
  "scan_geodatabase env dp dn recs st = (Inr r, st') \<Longrightarrow>
   call_log st' = call_log st @ expected_listing_calls env (os_path_join env dp dn) \<and>
   workspace st' = None"
  by (auto simp: scan_geodatabase_def Let_def arcpy_listing_def print_def
                 expected_listing_calls_def listing_or_empty_def
           split: sum.splits prod.splits if_splits dest!: fds_loop_ok)

lemma take_calls_2:
  "take (2 + min k (length M)) ([a, b] @ M @ [c, d]) = [a, b] @ take k M"
  by (simp add: numeral_2_eq_2 min_def)

lemma take_calls_3:
  "take (3 + length M) ([a, b] @ M @ [c, d]) = [a, b] @ M @ [c]"
  by (simp add: numeral_3_eq_3)

lemma scan_log_any:
  assumes "scan_geodatabase env dp dn recs st = (res, st')"
  shows "\<exists>n. call_log st' = call_log st
            @ take n (expected_listing_calls env (os_path_join env dp dn))"
proof -
  let ?gdb = "os_path_join env dp dn"
  let ?glm = "case os_path_getmtime env ?gdb of Inl e \<Rightarrow> None | Inr t \<Rightarrow> format_timestamp env t"
  let ?E = "expected_listing_calls env ?gdb"
  let ?M = "map (\<lambda>fds. (ListFeatureClasses, Some (os_path_join env ?gdb fds)))
              (listing_or_empty env ListDatasets (Some ?gdb))"
  let ?st2 = "(print (''Scanning geodatabase: '' @ ?gdb) st)\<lparr>workspace := Some ?gdb\<rparr>"
  let ?st3 = "snd (arcpy_listing env ListFeatureClasses ?st2)"
  let ?st4 = "snd (arcpy_listing env ListDatasets ?st3)"
  have E: "?E = [(ListFeatureClasses, Some ?gdb), (ListDatasets, Some ?gdb)] @ ?M
                 @ [(ListTables, Some ?gdb), (ListRasters, Some ?gdb)]"
    by (simp add: expected_listing_calls_def)
  have log4: "call_log ?st4
      = call_log st @ [(ListFeatureClasses, Some ?gdb), (ListDatasets, Some ?gdb)]"
    by (simp add: arcpy_listing_def print_def)
  show ?thesis
  proof (cases "describe_each env dn ?gdb ?glm ?gdb None
                  (fst (arcpy_listing env ListFeatureClasses ?st2)) recs")
    case (Inl e)
    with assms have "st' = ?st3"
      by (simp add: scan_geodatabase_def Let_def case_prod_beta)
    then have "call_log st' = call_log st @ take 1 ?E"
      by (simp add: E arcpy_listing_def print_def)
    then show ?thesis by blast
  next
    case r1: (Inr recs1)
    obtain res5 st5 where
      loop: "feature_datasets_loop env dn ?gdb ?glm
               (fst (arcpy_listing env ListDatasets ?st3)) recs1 ?st4 = (res5, st5)"
      by fastforce
    have fdss: "fst (arcpy_listing env ListDatasets ?st3)
                  = listing_or_empty env ListDatasets (Some ?gdb)"
      by (simp add: arcpy_listing_def listing_or_empty_def print_def)
    from fds_loop_log_any [OF loop] obtain k where
      log5: "call_log st5 = call_log ?st4 @ take k ?M"
      unfolding fdss by blast
    show ?thesis
    proof (cases res5)
      case (Inl e)
      with assms r1 loop have "st' = st5"
        by (simp add: scan_geodatabase_def Let_def case_prod_beta)
      with log5 log4 have "call_log st' = call_log st @ take (2 + min k (length ?M)) ?E"
        unfolding E take_calls_2 by simp
      then show ?thesis by blast
    next
      case r2: (Inr recs2)
      from fds_loop_log_ok [OF loop [unfolded r2]] have
        log5': "call_log st5 = call_log ?st4 @ ?M"
        unfolding fdss by simp
      from fds_loop_workspace [OF loop [unfolded r2]] have
        ws5: "workspace st5 = Some ?gdb"
        by (simp add: arcpy_listing_def print_def split: if_splits)
      let ?st6 = "snd (arcpy_listing env ListTables st5)"
      show ?thesis
      proof (cases "describe_each env dn ?gdb ?glm ?gdb None
                      (fst (arcpy_listing env ListTables st5)) recs2")
        case (Inl e)
        with assms r1 r2 loop have "st' = ?st6"
          by (simp add: scan_geodatabase_def Let_def case_prod_beta)
        with log5' log4 ws5 have
          "call_log st' = call_log st @ take (3 + length ?M) ?E"
          unfolding E take_calls_3 by (simp add: arcpy_listing_def)
        then show ?thesis by blast
      next
        case r3: (Inr recs3)
        let ?st7 = "snd (arcpy_listing env ListRasters ?st6)"
        have log7: "call_log ?st7 = call_log st @ ?E"
          using log5' log4 ws5 by (simp add: E arcpy_listing_def)
        have "call_log st' = call_log ?st7"
          using assms r1 r2 r3 loop
          by (auto simp: scan_geodatabase_def Let_def case_prod_beta split: sum.splits)
        with log7 have "call_log st' = call_log st @ take (length ?E) ?E"
          by simp
        then show ?thesis by blast
      qed
    qed
  qed
qed


lemma dirnames_frame:
  "dirnames_loop env dp ds recs st = (res, st') \<Longrightarrow>
   excel_files st' = excel_files st \<and> text_files st' = text_files st \<and> ticks st' = ticks st"
proof (induction ds arbitrary: recs st)
  case Nil
  then show ?case by simp
next
  case (Cons d rest)
  then show ?case
    by (auto split: if_splits sum.splits prod.splits dest!: scan_frame Cons.IH)
qed

lemma walk_frame:
  "walk_loop env w recs st = (res, st') \<Longrightarrow>
   excel_files st' = excel_files st \<and> text_files st' = text_files st \<and> ticks st' = ticks st"
proof (induction w arbitrary: recs st)
  case Nil
  then show ?case by simp
next
  case (Cons t rest)
  obtain dp ds fs where t: "t = (dp, ds, fs)" by (cases t) auto
  from Cons.prems show ?case
    unfolding t by (auto split: sum.splits prod.splits dest!: dirnames_frame Cons.IH)
qed

lemma dirnames_none:
  "\<forall>d\<in>set ds. \<not> endswith (lower d) ''.gdb'' \<Longrightarrow>
   dirnames_loop env dp ds recs st = (Inr recs, st)"
  by (induction ds) auto

lemma walk_none:
  "\<forall>(dp, ds, fs)\<in>set w. \<forall>d\<in>set ds. \<not> endswith (lower d) ''.gdb'' \<Longrightarrow>
   walk_loop env w recs st = (Inr recs, st)"
proof (induction w)
  case Nil
  then show ?case by simp
next
  case (Cons t rest)
  obtain dp ds fs where t: "t = (dp, ds, fs)" by (cases t) auto
  from Cons.prems have "dirnames_loop env dp ds recs st = (Inr recs, st)"
    unfolding t by (intro dirnames_none) auto
  moreover from Cons have "walk_loop env rest recs st = (Inr recs, st)" by simp
  ultimately show ?case unfolding t by simp
qed

lemma walk_ignores_files:
  "walk_loop env (map (\<lambda>(dp, ds, fs). (dp, ds, g dp ds fs)) w) recs st = walk_loop env w recs st"
proof (induction w arbitrary: recs st)
  case Nil
  then show ?case by simp
next
  case (Cons t rest)
  obtain dp ds fs where t: "t = (dp, ds, fs)" by (cases t) auto
  show ?case unfolding t by (simp add: Cons.IH split: prod.splits sum.splits)
qed

lemma dirnames_stdout_ok:
  "dirnames_loop env dp ds recs st = (Inr r, st') \<Longrightarrow>
   stdout st' = stdout st @ map scanning_line (dir_candidates env dp ds)"
proof (induction ds arbitrary: recs st)
  case Nil
  then show ?case by (simp add: dir_candidates_def)
next
  case (Cons d rest)
  then show ?case
    by (auto simp: dir_candidates_def split: if_splits sum.splits prod.splits
             dest!: scan_frame Cons.IH)
qed

lemma dirnames_stdout_any:
  "dirnames_loop env dp ds recs st = (res, st') \<Longrightarrow>
   \<exists>n. stdout st' = stdout st @ take n (map scanning_line (dir_candidates env dp ds))"
proof (induction ds arbitrary: recs st)
  case Nil
  then show ?case by (simp add: dir_candidates_def)
next
  case (Cons d rest)
  show ?case
  proof (cases "endswith (lower d) ''.gdb''")
    case False
    with Cons.prems have "dirnames_loop env dp rest recs st = (res, st')" by simp
    from Cons.IH [OF this] False show ?thesis by (simp add: dir_candidates_def)
  next
    case True
    obtain res1 st1 where scan: "scan_geodatabase env dp d recs st = (res1, st1)"
      by fastforce
    from scan_frame [OF scan] have
      out1: "stdout st1 = stdout st @ [scanning_line (os_path_join env dp d)]" by simp
    have cands: "dir_candidates env dp (d # rest)
                   = os_path_join env dp d # dir_candidates env dp rest"
      using True by (simp add: dir_candidates_def)
    show ?thesis
    proof (cases res1)
      case (Inl e)
      with Cons.prems True scan have "st' = st1" by simp
      with out1 have "stdout st' = stdout st
          @ take 1 (map scanning_line (dir_candidates env dp (d # rest)))"
        by (simp add: cands)
      then show ?thesis by blast
    next
      case (Inr recs1)
      with Cons.prems True scan have "dirnames_loop env dp rest recs1 st1 = (res, st')"
        by simp
      from Cons.IH [OF this] obtain n where
        "stdout st' = stdout st1 @ take n (map scanning_line (dir_candidates env dp rest))"
        by blast
      with out1 have "stdout st' = stdout st
          @ take (Suc n) (map scanning_line (dir_candidates env dp (d # rest)))"
        by (simp add: cands)
      then show ?thesis by blast
    qed
  qed
qed

lemma gdb_candidates_Cons:
  "gdb_candidates env ((dp, ds, fs) # rest)
     = dir_candidates env dp ds @ gdb_candidates env rest"
  by (simp add: gdb_candidates_def)

lemma walk_stdout_ok:
  "walk_loop env w recs st = (Inr r, st') \<Longrightarrow>
   stdout st' = stdout st @ map scanning_line (gdb_candidates env w)"
proof (induction w arbitrary: recs st)
  case Nil
  then show ?case by (simp add: gdb_candidates_def)
next
  case (Cons t rest)
  obtain dp ds fs where t: "t = (dp, ds, fs)" by (cases t) auto
  from Cons.prems show ?case
    unfolding t
    by (auto simp: gdb_candidates_Cons split: sum.splits prod.splits
             dest!: dirnames_stdout_ok Cons.IH)
qed

lemma walk_stdout_any:
  "walk_loop env w recs st = (res, st') \<Longrightarrow>
   \<exists>n. stdout st' = stdout st @ take n (map scanning_line (gdb_candidates env w))"
proof (induction w arbitrary: recs st)
  case Nil
  then show ?case by (simp add: gdb_candidates_def)
next
  case (Cons t rest)
  obtain dp ds fs where t: "t = (dp, ds, fs)" by (cases t) auto
  obtain res1 st1 where dl: "dirnames_loop env dp ds recs st = (res1, st1)"
    by fastforce
  let ?A = "map scanning_line (dir_candidates env dp ds)"
  let ?B = "map scanning_line (gdb_candidates env rest)"
  have AB: "map scanning_line (gdb_candidates env (t # rest)) = ?A @ ?B"
    unfolding t by (simp add: gdb_candidates_Cons)
  show ?case
  proof (cases res1)
    case (Inl e)
    with Cons.prems dl have "st' = st1" unfolding t by simp
    moreover from dirnames_stdout_any [OF dl] obtain n where
      "stdout st1 = stdout st @ take n ?A" by blast
    ultimately have "stdout st' = stdout st @ take (min n (length ?A)) (?A @ ?B)"
      by (simp add: min_def)
    then show ?thesis unfolding AB by blast
  next
    case (Inr recs1)
    with Cons.prems dl have "walk_loop env rest recs1 st1 = (res, st')"
      unfolding t by simp
    from Cons.IH [OF this] obtain n where "stdout st' = stdout st1 @ take n ?B"
      by blast
    moreover from dirnames_stdout_ok [OF dl [unfolded Inr]] have
      "stdout st1 = stdout st @ ?A" .
    ultimately have "stdout st' = stdout st @ take (length ?A + n) (?A @ ?B)"
      by simp
    then show ?thesis unfolding AB by blast
  qed
qed

lemma lower_append: "lower (xs @ ys) = lower xs @ lower ys"
  by (simp add: lower_def)

lemma endswith_iff: "endswith s suf \<longleftrightarrow> (\<exists>pre. s = pre @ suf)"
proof
  assume "endswith s suf"
  then have "s = take (length s - length suf) s @ suf"
    by (metis append_take_drop_id endswith_def)
  then show "\<exists>pre. s = pre @ suf" ..
next
  assume "\<exists>pre. s = pre @ suf"
  then show "endswith s suf" by (auto simp: endswith_def)
qed

lemma endswith_lower_iff:
  "endswith (lower d) s \<longleftrightarrow> (\<exists>pre suf. d = pre @ suf \<and> lower suf = s)"
proof
  assume "endswith (lower d) s"
  then obtain p where "map lower_char d = p @ s"
    unfolding endswith_iff lower_def by blast
  then obtain pre suf where "d = pre @ suf" "map lower_char suf = s"
    unfolding map_eq_append_conv by blast
  then show "\<exists>pre suf. d = pre @ suf \<and> lower suf = s"
    unfolding lower_def by blast
next
  assume "\<exists>pre suf. d = pre @ suf \<and> lower suf = s"
  then obtain pre suf where "d = pre @ suf" "lower suf = s" by blast
  then have "lower d = lower pre @ s" by (simp add: lower_append)
  then show "endswith (lower d) s" unfolding endswith_iff by blast
qed


subsection \<open>Properties of the inventory\<close>

lemma describe_dataset_Inr:
  "arcpy_Describe env p = Inr d \<Longrightarrow>
   describe_dataset env g gp glm p fds =
     Inr \<lparr>GDB_Name = g, GDB_Path = gp, GDB_Last_Modified = glm, Feature_Dataset = fds,
          Dataset_Name = desc_name d, Dataset_Path = p,
          Dataset_Type = (case datasetType d of None \<Rightarrow> ''Unknown'' | Some t \<Rightarrow> t),
          Geometry_Type =
            (if (case datasetType d of None \<Rightarrow> ''Unknown'' | Some t \<Rightarrow> t) = ''FeatureClass''
             then shapeType d else None),
          Feature_Count =
            feature_count_of env (case datasetType d of None \<Rightarrow> ''Unknown'' | Some t \<Rightarrow> t) p,
          Spatial_Reference = spatial_reference_of (spatialReference d)\<rparr>"
  by (simp add: describe_dataset_def Let_def)

lemma describe_dataset_Inl:
  "arcpy_Describe env p = Inl e \<Longrightarrow> describe_dataset env g gp glm p fds = Inl e"
  by (simp add: describe_dataset_def)

lemma feature_count_failed:
  "arcpy_GetCount env p = Inl e \<Longrightarrow> feature_count_of env t p = None"
  by (simp add: feature_count_of_def)

lemma inventory_frame:
  "inventory_geodatabases env root st = (res, st') \<Longrightarrow>
   excel_files st' = excel_files st \<and> text_files st' = text_files st \<and> ticks st' = ticks st"
  unfolding inventory_geodatabases_def by (rule walk_frame)

lemma main_propagates:
  assumes "fst (inventory_geodatabases env root
                  (print (''Starting geodatabase inventory for: '' @ root) st)) = Inl e"
  shows "fst (catalog_main env root out st) = Inl e
       \<and> excel_files (snd (catalog_main env root out st)) = excel_files st"
proof -
  from assms obtain st1 where run: "inventory_geodatabases env root
      (print (''Starting geodatabase inventory for: '' @ root) st) = (Inl e, st1)"
    by (metis prod.collapse)
  have main: "catalog_main env root out st = (Inl e, st1)"
    using run by (simp add: catalog_main_def)
  from inventory_frame [OF run] show ?thesis
    by (simp add: main print_def)
qed

subsection \<open>The inventory as a sequence of describe calls\<close>

lemma describe_each_refs:
  "describe_each env g gp glm base fds names records
     = describe_refs env (dataset_refs env g gp glm base fds names) records"
  by (induction names arbitrary: records) (simp_all add: dataset_refs_def split: sum.splits)

lemma describe_refs_append:
  "describe_refs env (ts @ us) records
     = (case describe_refs env ts records of
          Inl e \<Rightarrow> Inl e
        | Inr records1 \<Rightarrow> describe_refs env us records1)"
  by (induction ts arbitrary: records) (simp_all split: sum.splits)

lemma fds_loop_refs:
  "fst (feature_datasets_loop env dn gp glm fdss records st)
     = describe_refs env (feature_dataset_refs env dn gp glm fdss) records"
proof (induction fdss arbitrary: records st)
  case Nil
  then show ?case by (simp add: feature_dataset_refs_def)
next
  case (Cons fds rest)
  have unfold: "feature_dataset_refs env dn gp glm (fds # rest)
      = dataset_refs env dn gp glm (os_path_join env gp fds) (Some fds)
          (listing_or_empty env ListFeatureClasses (Some (os_path_join env gp fds)))
        @ feature_dataset_refs env dn gp glm rest"
    by (simp add: feature_dataset_refs_def)
  show ?case
    unfolding unfold describe_refs_append
    by (simp add: arcpy_listing_def listing_or_empty_def Let_def describe_each_refs Cons.IH
             split: sum.splits)
qed

lemma arcpy_listing_workspace:
  "workspace (snd (arcpy_listing env call st)) = workspace st"
  by (simp add: arcpy_listing_def)

lemma scan_refs:
  "fst (scan_geodatabase env dp dn records st) = describe_refs env (gdb_refs env dp dn) records"
proof -
  let ?gdb = "os_path_join env dp dn"
  let ?glm = "case os_path_getmtime env ?gdb of Inl e \<Rightarrow> None | Inr t \<Rightarrow> format_timestamp env t"
  let ?st2 = "(print (''Scanning geodatabase: '' @ ?gdb) st)\<lparr>workspace := Some ?gdb\<rparr>"
  let ?st3 = "snd (arcpy_listing env ListFeatureClasses ?st2)"
  let ?st4 = "snd (arcpy_listing env ListDatasets ?st3)"
  let ?A = "dataset_refs env dn ?gdb ?glm ?gdb None
              (listing_or_empty env ListFeatureClasses (Some ?gdb))"
  let ?B = "feature_dataset_refs env dn ?gdb ?glm
              (listing_or_empty env ListDatasets (Some ?gdb))"
  let ?C = "dataset_refs env dn ?gdb ?glm ?gdb None
              (listing_or_empty env ListTables (Some ?gdb))"
  let ?D = "dataset_refs env dn ?gdb ?glm ?gdb None
              (listing_or_empty env ListRasters (Some ?gdb))"
  have refs: "gdb_refs env dp dn = ?A @ ?B @ ?C @ ?D"
    by (simp add: gdb_refs_def Let_def)
  note fcs = arcpy_listing_simps(1) arcpy_listing_workspace
  note fdss = print_def
  show ?thesis
  proof (cases "describe_refs env ?A records")
    case (Inl e)
    then show ?thesis
      unfolding refs describe_refs_append
      by (simp add: scan_geodatabase_def Let_def case_prod_beta fcs describe_each_refs)
  next
    case r1: (Inr records1)
    obtain res5 st5 where
      loop: "feature_datasets_loop env dn ?gdb ?glm
               (listing_or_empty env ListDatasets (Some ?gdb)) records1 ?st4 = (res5, st5)"
      by fastforce
    from loop have "fst (feature_datasets_loop env dn ?gdb ?glm
               (listing_or_empty env ListDatasets (Some ?gdb)) records1 ?st4) = res5"
      by simp
    then have B: "describe_refs env ?B records1 = res5"
      by (simp only: fds_loop_refs)
    have loop': "feature_datasets_loop env dn ?gdb ?glm
               (fst (arcpy_listing env ListDatasets ?st3)) records1 ?st4 = (res5, st5)"
      using loop by (simp add: fcs fdss)
    show ?thesis
    proof (cases res5)
      case (Inl e)
      with r1 B loop' show ?thesis
        unfolding refs describe_refs_append
        by (simp add: scan_geodatabase_def Let_def case_prod_beta fcs fdss describe_each_refs)
    next
      case r2: (Inr records2)
      from fds_loop_workspace [OF loop [unfolded r2]] have
        ws5: "workspace st5 = Some ?gdb"
        by (simp add: arcpy_listing_def print_def split: if_splits)
      from r1 r2 B loop' ws5 show ?thesis
        unfolding refs describe_refs_append
        by (simp add: scan_geodatabase_def Let_def case_prod_beta fcs fdss describe_each_refs
                 split: sum.splits)
    qed
  qed
qed

lemma dirnames_refs:
  "fst (dirnames_loop env dp ds records st) = describe_refs env (dir_refs env dp ds) records"
proof (induction ds arbitrary: records st)
  case Nil
  then show ?case by (simp add: dir_refs_def)
next
  case (Cons d rest)
  show ?case
  proof (cases "endswith (lower d) ''.gdb''")
    case False
    then show ?thesis using Cons.IH by (simp add: dir_refs_def)
  next
    case True
    then have unfold: "dir_refs env dp (d # rest) = gdb_refs env dp d @ dir_refs env dp rest"
      by (simp add: dir_refs_def)
    obtain res1 st1 where scan: "scan_geodatabase env dp d records st = (res1, st1)"
      by fastforce
    with scan_refs [of env dp d records st] have "describe_refs env (gdb_refs env dp d) records = res1"
      by simp
    with True scan show ?thesis
      unfolding unfold describe_refs_append
      by (simp add: Cons.IH split: sum.splits)
  qed
qed

lemma walk_loop_refs:
  "fst (walk_loop env w records st) = describe_refs env (walk_refs env w) records"
proof (induction w arbitrary: records st)
  case Nil
  then show ?case by (simp add: walk_refs_def)
next
  case (Cons t rest)
  obtain dp ds fs where t: "t = (dp, ds, fs)" by (cases t) auto
  have unfold: "walk_refs env ((dp, ds, fs) # rest) = dir_refs env dp ds @ walk_refs env rest"
    by (simp add: walk_refs_def)
  obtain res1 st1 where dl: "dirnames_loop env dp ds records st = (res1, st1)"
    by fastforce
  with dirnames_refs [of env dp ds records st] have "describe_refs env (dir_refs env dp ds) records = res1"
    by simp
  with dl show ?case
    unfolding t unfold describe_refs_append
    by (simp add: Cons.IH split: sum.splits)
qed

lemma inventory_refs:
  "fst (inventory_geodatabases env root st)
     = describe_refs env (walk_refs env (os_walk env root)) []"
  unfolding inventory_geodatabases_def by (rule walk_loop_refs)


text \<open>The row of one described dataset.\<close>

lemma described_row:
  assumes "arcpy_Describe env (ref_path t) = Inr d"
  shows "\<exists>r. describe_dataset env (ref_gdb_name t) (ref_gdb_path t) (ref_gdb_last_modified t)
               (ref_path t) (ref_feature_dataset t) = Inr r
           \<and> Dataset_Path r = ref_path t
           \<and> Feature_Dataset r = ref_feature_dataset t
           \<and> Dataset_Name r = desc_name d
           \<and> (isl (arcpy_GetCount env (ref_path t)) \<longrightarrow> Feature_Count r = None)
           \<and> (\<forall>e. spatialReference d = SR_Raises e \<or> spatialReference d = SR_Object (Inl e)
                  \<longrightarrow> Spatial_Reference r = None)"
proof -
  have count: "isl (arcpy_GetCount env (ref_path t))
                 \<longrightarrow> feature_count_of env ty (ref_path t) = None" for ty
    by (cases "arcpy_GetCount env (ref_path t)") (simp_all add: feature_count_failed)
  have sr: "\<forall>e. spatialReference d = SR_Raises e \<or> spatialReference d = SR_Object (Inl e)
              \<longrightarrow> spatial_reference_of (spatialReference d) = None"
    by auto
  from count sr show ?thesis
    by (simp add: describe_dataset_Inr [OF assms])
qed

lemma describe_refs_keeps:
  "describe_refs env ts records = Inr rows \<Longrightarrow> \<exists>further. rows = records @ further"
proof (induction ts arbitrary: records)
  case Nil
  then show ?case by simp
next
  case (Cons t ts)
  then show ?case by (fastforce split: sum.splits)
qed

lemma describe_refs_raises:
  "describe_refs env ts records = Inl e \<Longrightarrow>
   \<exists>u \<in> set ts. arcpy_Describe env (ref_path u) = Inl e"
proof (induction ts arbitrary: records)
  case Nil
  then show ?case by simp
next
  case (Cons t ts)
  show ?case
  proof (cases "arcpy_Describe env (ref_path t)")
    case (Inl e')
    with Cons.prems have "e' = e" by (simp add: describe_dataset_Inl)
    with Inl show ?thesis by simp
  next
    case (Inr d)
    with Cons.prems obtain r where "describe_refs env ts (records @ [r]) = Inl e"
      by (auto simp: describe_dataset_Inr)
    from Cons.IH [OF this] show ?thesis by auto
  qed
qed

lemma describe_refs_all:
  assumes "\<forall>t \<in> set ts. \<not> isl (arcpy_Describe env (ref_path t))"
  shows "\<exists>rows. describe_refs env ts records = Inr (records @ rows)
           \<and> map Dataset_Path rows = map ref_path ts"
  using assms
proof (induction ts arbitrary: records)
  case Nil
  then show ?case by simp
next
  case (Cons t ts)
  from Cons.prems obtain d where d: "arcpy_Describe env (ref_path t) = Inr d"
    by (cases "arcpy_Describe env (ref_path t)") auto
  from described_row [OF d] obtain r where
    r: "describe_dataset env (ref_gdb_name t) (ref_gdb_path t) (ref_gdb_last_modified t)
               (ref_path t) (ref_feature_dataset t) = Inr r"
    and p: "Dataset_Path r = ref_path t"
    by blast
  from Cons.prems have "\<forall>t \<in> set ts. \<not> isl (arcpy_Describe env (ref_path t))" by simp
  from Cons.IH [OF this, of "records @ [r]"] obtain rows where
    "describe_refs env ts (records @ [r]) = Inr ((records @ [r]) @ rows)"
    "map Dataset_Path rows = map ref_path ts"
    by blast
  with r p have "describe_refs env (t # ts) records = Inr (records @ (r # rows))
      \<and> map Dataset_Path (r # rows) = map ref_path (t # ts)"
    by simp
  then show ?case by blast
qed

text \<open>
  A dataset that describes, reached after datasets that all describe: whatever happens
  to its row count and spatial reference, the inventory goes on with its row recorded.
\<close>

lemma inventory_passes_described:
  assumes refs: "walk_refs env (os_walk env root) = pre @ t # post"
    and pre: "\<forall>u \<in> set pre. \<not> isl (arcpy_Describe env (ref_path u))"
    and d: "arcpy_Describe env (ref_path t) = Inr d"
  shows "\<exists>rows_pre r.
           length rows_pre = length pre
         \<and> describe_dataset env (ref_gdb_name t) (ref_gdb_path t) (ref_gdb_last_modified t)
               (ref_path t) (ref_feature_dataset t) = Inr r
         \<and> fst (inventory_geodatabases env root st) = describe_refs env post (rows_pre @ [r])"
proof -
  from describe_refs_all [OF pre, of "[]"] obtain rows_pre where
    rp: "describe_refs env pre [] = Inr rows_pre"
    and "map Dataset_Path rows_pre = map ref_path pre"
    by auto
  then have len: "length rows_pre = length pre"
    by (metis length_map)
  from described_row [OF d] obtain r where
    r: "describe_dataset env (ref_gdb_name t) (ref_gdb_path t) (ref_gdb_last_modified t)
               (ref_path t) (ref_feature_dataset t) = Inr r"
    by blast
  have "fst (inventory_geodatabases env root st) = describe_refs env post (rows_pre @ [r])"
    unfolding inventory_refs refs describe_refs_append rp by (simp add: r)
  with len r show ?thesis by blast
qed

lemma inventory_row_of_described:
  assumes refs: "walk_refs env (os_walk env root) = pre @ t # post"
    and pre: "\<forall>u \<in> set pre. \<not> isl (arcpy_Describe env (ref_path u))"
    and d: "arcpy_Describe env (ref_path t) = Inr d"
  shows "(\<forall>rows. fst (inventory_geodatabases env root st) = Inr rows \<longrightarrow>
            length pre < length rows
            \<and> describe_dataset env (ref_gdb_name t) (ref_gdb_path t)
                  (ref_gdb_last_modified t) (ref_path t) (ref_feature_dataset t)
                = Inr (rows ! length pre))
       \<and> (\<forall>e. fst (inventory_geodatabases env root st) = Inl e \<longrightarrow>
            (\<exists>u \<in> set post. arcpy_Describe env (ref_path u) = Inl e))
       \<and> ((\<forall>u \<in> set post. \<not> isl (arcpy_Describe env (ref_path u))) \<longrightarrow>
            (\<exists>rows. fst (inventory_geodatabases env root st) = Inr rows
                  \<and> map Dataset_Path rows = map ref_path (pre @ t # post)))"
proof -
  from inventory_passes_described [OF refs pre d, of st] obtain rows_pre r where
    len: "length rows_pre = length pre"
    and r: "describe_dataset env (ref_gdb_name t) (ref_gdb_path t) (ref_gdb_last_modified t)
               (ref_path t) (ref_feature_dataset t) = Inr r"
    and inv: "fst (inventory_geodatabases env root st)
                = describe_refs env post (rows_pre @ [r])"
    by blast
  have normal: "length pre < length rows
            \<and> describe_dataset env (ref_gdb_name t) (ref_gdb_path t)
                  (ref_gdb_last_modified t) (ref_path t) (ref_feature_dataset t)
                = Inr (rows ! length pre)"
    if "fst (inventory_geodatabases env root st) = Inr rows" for rows
  proof -
    from that inv describe_refs_keeps obtain further where
      "rows = (rows_pre @ [r]) @ further"
      by metis
    with len r show ?thesis by (simp add: nth_append)
  qed
  have raised: "\<exists>u \<in> set post. arcpy_Describe env (ref_path u) = Inl e"
    if "fst (inventory_geodatabases env root st) = Inl e" for e
    using that inv describe_refs_raises by metis
  have complete: "\<exists>rows. fst (inventory_geodatabases env root st) = Inr rows
                  \<and> map Dataset_Path rows = map ref_path (pre @ t # post)"
    if "\<forall>u \<in> set post. \<not> isl (arcpy_Describe env (ref_path u))"
  proof -
    from that pre d have "\<forall>u \<in> set (pre @ t # post). \<not> isl (arcpy_Describe env (ref_path u))"
      by auto
    from describe_refs_all [OF this, of "[]"] show ?thesis
      unfolding inventory_refs refs by simp
  qed
  from normal raised complete show ?thesis by blast
qed

lemma inventory_raises_at:
  assumes refs: "walk_refs env (os_walk env root) = pre @ t # post"
    and pre: "\<forall>u \<in> set pre. \<not> isl (arcpy_Describe env (ref_path u))"
    and e: "arcpy_Describe env (ref_path t) = Inl e"
  shows "fst (inventory_geodatabases env root st) = Inl e"
proof -
  from describe_refs_all [OF pre, of "[]"] obtain rows_pre where
    rp: "describe_refs env pre [] = Inr rows_pre"
    by auto
  show ?thesis
    unfolding inventory_refs refs describe_refs_append rp
    by (simp add: describe_dataset_Inl [OF e])
qed


text \<open>
  C7. A dataset whose row-count query raises, reached after datasets that all describe:
  the exception is swallowed. When the inventory ends normally, the rows hold the row of
  that dataset at its place, with the feature count empty; when the inventory raises, the
  exception comes from describing one of the datasets after it; and when those all
  describe, the inventory ends normally with one row per dataset of the walk, in order.
  (The count is queried for feature classes and tables only; for other types the field
  is empty as well.)
\<close>

theorem C7_failed_count_gives_empty_count:
  assumes "walk_refs env (os_walk env root) = pre @ t # post"
    and "\<forall>u \<in> set pre. \<not> isl (arcpy_Describe env (ref_path u))"
    and "arcpy_Describe env (ref_path t) = Inr d"
    and "arcpy_GetCount env (ref_path t) = Inl e"
  shows "(\<forall>rows. fst (inventory_geodatabases env root st) = Inr rows \<longrightarrow>
            length pre < length rows
            \<and> Dataset_Path (rows ! length pre) = ref_path t
            \<and> Feature_Count (rows ! length pre) = None)
       \<and> (\<forall>e'. fst (inventory_geodatabases env root st) = Inl e' \<longrightarrow>
            (\<exists>u \<in> set post. arcpy_Describe env (ref_path u) = Inl e'))
       \<and> ((\<forall>u \<in> set post. \<not> isl (arcpy_Describe env (ref_path u))) \<longrightarrow>
            (\<exists>rows. fst (inventory_geodatabases env root st) = Inr rows
                  \<and> map Dataset_Path rows = map ref_path (pre @ t # post)
                  \<and> Feature_Count (rows ! length pre) = None))"
proof -
  note inv = inventory_row_of_described [OF assms(1-3), of st]
  from described_row [OF assms(3)] assms(4) obtain r where
    r: "describe_dataset env (ref_gdb_name t) (ref_gdb_path t) (ref_gdb_last_modified t)
               (ref_path t) (ref_feature_dataset t) = Inr r"
    and props: "Dataset_Path r = ref_path t" "Feature_Count r = None"
    by auto
  have normal: "length pre < length rows
            \<and> Dataset_Path (rows ! length pre) = ref_path t
            \<and> Feature_Count (rows ! length pre) = None"
    if "fst (inventory_geodatabases env root st) = Inr rows" for rows
  proof -
    from inv that have "length pre < length rows"
      and "describe_dataset env (ref_gdb_name t) (ref_gdb_path t) (ref_gdb_last_modified t)
               (ref_path t) (ref_feature_dataset t) = Inr (rows ! length pre)"
      by blast+
    with r props show ?thesis by simp
  qed
  from inv normal show ?thesis by blast
qed

lemma gdb_A: "endswith (lower ''A.GDB'') ''.gdb''"
  by code_simp

lemma not_gdb_docs: "\<not> endswith (lower ''docs'') ''.gdb''"
  by code_simp

lemma roads_fail_refs:
  "walk_refs gdb_env_roads_fail (os_walk gdb_env_roads_fail ''root'')
     = [] @ ref_of None ''root/A.GDB/roads''
          # [ref_of (Some ''transport'') ''root/A.GDB/transport/rail'',
             ref_of None ''root/A.GDB/owners'']"
  by code_simp

lemma roads_fail_pre:
  "\<forall>u \<in> set ([] :: dataset_ref list).
     \<not> isl (arcpy_Describe gdb_env_roads_fail (ref_path u))"
  by simp

lemma roads_fail_describe:
  "arcpy_Describe gdb_env_roads_fail (ref_path (ref_of None ''root/A.GDB/roads''))
     = Inr ((feature_class_desc ''roads'')
              \<lparr>spatialReference := SR_Object (Inl (Error ''no name''))\<rparr>)"
  by (simp add: gdb_env_roads_fail_def ref_of_def)

lemma roads_fail_count:
  "arcpy_GetCount gdb_env_roads_fail (ref_path (ref_of None ''root/A.GDB/roads''))
     = Inl (Error ''locked'')"
  by (simp add: gdb_env_roads_fail_def ref_of_def)

lemma roads_fail_post:
  "\<forall>u \<in> set [ref_of (Some ''transport'') ''root/A.GDB/transport/rail'',
               ref_of None ''root/A.GDB/owners''].
     \<not> isl (arcpy_Describe gdb_env_roads_fail (ref_path u))"
  by (simp add: gdb_env_roads_fail_def gdb_env_def env0_def ref_of_def)

theorem C7_witness:
  "\<exists>rows. fst (inventory_geodatabases gdb_env_roads_fail ''root'' state0) = Inr rows
       \<and> map Dataset_Path rows
           = [''root/A.GDB/roads'', ''root/A.GDB/transport/rail'', ''root/A.GDB/owners'']
       \<and> Feature_Count (rows ! 0) = None"
  using C7_failed_count_gives_empty_count
          [OF roads_fail_refs roads_fail_pre roads_fail_describe roads_fail_count, of state0]
        roads_fail_post
  by (simp add: ref_of_def)

text \<open>
  C2, as the code has it. Only the row-count query and the spatial-reference query are
  guarded. A dataset that describes, reached after datasets that all describe, gets its
  row whatever these two queries do, with the field of a query that raised left empty,
  and the inventory goes on: it can only raise from describing a later dataset, and ends
  normally with one row per dataset when the later ones describe. The describe call
  itself is not guarded anywhere: when it raises for a dataset reached after datasets
  that all describe, the exception leaves the inventory and then \<open>main\<close>, the datasets
  after it are not described, and no spreadsheet is written.
\<close>

theorem C2_only_count_and_spatial_reference_guarded:
  "(walk_refs env (os_walk env root) = pre @ t # post
      \<and> (\<forall>u \<in> set pre. \<not> isl (arcpy_Describe env (ref_path u)))
      \<and> arcpy_Describe env (ref_path t) = Inr d \<longrightarrow>
        (\<forall>rows. fst (inventory_geodatabases env root st) = Inr rows \<longrightarrow>
            length pre < length rows
            \<and> Dataset_Path (rows ! length pre) = ref_path t
            \<and> (isl (arcpy_GetCount env (ref_path t)) \<longrightarrow>
                 Feature_Count (rows ! length pre) = None)
            \<and> (\<forall>e. spatialReference d = SR_Raises e \<or> spatialReference d = SR_Object (Inl e)
                  \<longrightarrow> Spatial_Reference (rows ! length pre) = None))
        \<and> (\<forall>e. fst (inventory_geodatabases env root st) = Inl e \<longrightarrow>
              (\<exists>u \<in> set post. arcpy_Describe env (ref_path u) = Inl e))
        \<and> ((\<forall>u \<in> set post. \<not> isl (arcpy_Describe env (ref_path u))) \<longrightarrow>
              (\<exists>rows. fst (inventory_geodatabases env root st) = Inr rows
                    \<and> map Dataset_Path rows = map ref_path (pre @ t # post))))
   \<and> (walk_refs env' (os_walk env' root') = pre' @ t' # post'
      \<and> (\<forall>u \<in> set pre'. \<not> isl (arcpy_Describe env' (ref_path u)))
      \<and> arcpy_Describe env' (ref_path t') = Inl e' \<longrightarrow>
        fst (inventory_geodatabases env' root' st') = Inl e'
        \<and> fst (catalog_main env' root' out st') = Inl e'
        \<and> excel_files (snd (catalog_main env' root' out st')) = excel_files st')"
proof -
  have guarded:
    "(\<forall>rows. fst (inventory_geodatabases env root st) = Inr rows \<longrightarrow>
            length pre < length rows
            \<and> Dataset_Path (rows ! length pre) = ref_path t
            \<and> (isl (arcpy_GetCount env (ref_path t)) \<longrightarrow>
                 Feature_Count (rows ! length pre) = None)
            \<and> (\<forall>e. spatialReference d = SR_Raises e \<or> spatialReference d = SR_Object (Inl e)
                  \<longrightarrow> Spatial_Reference (rows ! length pre) = None))
        \<and> (\<forall>e. fst (inventory_geodatabases env root st) = Inl e \<longrightarrow>
              (\<exists>u \<in> set post. arcpy_Describe env (ref_path u) = Inl e))
        \<and> ((\<forall>u \<in> set post. \<not> isl (arcpy_Describe env (ref_path u))) \<longrightarrow>
              (\<exists>rows. fst (inventory_geodatabases env root st) = Inr rows
                    \<and> map Dataset_Path rows = map ref_path (pre @ t # post)))"
    if refs: "walk_refs env (os_walk env root) = pre @ t # post"
      and pre: "\<forall>u \<in> set pre. \<not> isl (arcpy_Describe env (ref_path u))"
      and d: "arcpy_Describe env (ref_path t) = Inr d"
  proof -
    note inv = inventory_row_of_described [OF refs pre d, of st]
    from described_row [OF d] obtain r where
      r: "describe_dataset env (ref_gdb_name t) (ref_gdb_path t) (ref_gdb_last_modified t)
                 (ref_path t) (ref_feature_dataset t) = Inr r"
      and props: "Dataset_Path r = ref_path t"
        "isl (arcpy_GetCount env (ref_path t)) \<longrightarrow> Feature_Count r = None"
        "\<forall>e. spatialReference d = SR_Raises e \<or> spatialReference d = SR_Object (Inl e)
                  \<longrightarrow> Spatial_Reference r = None"
      by blast
    have normal: "length pre < length rows
            \<and> Dataset_Path (rows ! length pre) = ref_path t
            \<and> (isl (arcpy_GetCount env (ref_path t)) \<longrightarrow>
                 Feature_Count (rows ! length pre) = None)
            \<and> (\<forall>e. spatialReference d = SR_Raises e \<or> spatialReference d = SR_Object (Inl e)
                  \<longrightarrow> Spatial_Reference (rows ! length pre) = None)"
      if "fst (inventory_geodatabases env root st) = Inr rows" for rows
    proof -
      from inv that have "length pre < length rows"
        and "describe_dataset env (ref_gdb_name t) (ref_gdb_path t) (ref_gdb_last_modified t)
                 (ref_path t) (ref_feature_dataset t) = Inr (rows ! length pre)"
        by blast+
      with r props show ?thesis by simp
    qed
    from inv normal show ?thesis by blast
  qed
  have unguarded:
    "fst (inventory_geodatabases env' root' st') = Inl e'
        \<and> fst (catalog_main env' root' out st') = Inl e'
        \<and> excel_files (snd (catalog_main env' root' out st')) = excel_files st'"
    if refs: "walk_refs env' (os_walk env' root') = pre' @ t' # post'"
      and pre: "\<forall>u \<in> set pre'. \<not> isl (arcpy_Describe env' (ref_path u))"
      and e: "arcpy_Describe env' (ref_path t') = Inl e'"
    using inventory_raises_at [OF refs pre e] main_propagates [of env' root' st' e' out]
    by simp
  from guarded unguarded show ?thesis by blast
qed

lemma roads_fail_rows_run:
  "fst (inventory_geodatabases gdb_env_roads_fail ''root'' state0) = Inr roads_fail_rows"
  by code_simp

lemma describe_fails_refs:
  "walk_refs gdb_env_describe_fails (os_walk gdb_env_describe_fails ''root'')
     = [ref_of None ''root/A.GDB/roads'']
       @ ref_of (Some ''transport'') ''root/A.GDB/transport/rail''
         # [ref_of None ''root/A.GDB/owners'']"
  by code_simp

lemma describe_fails_pre:
  "\<forall>u \<in> set [ref_of None ''root/A.GDB/roads''].
     \<not> isl (arcpy_Describe gdb_env_describe_fails (ref_path u))"
  by (simp add: gdb_env_describe_fails_def gdb_env_def env0_def ref_of_def)

lemma describe_fails_at:
  "arcpy_Describe gdb_env_describe_fails
     (ref_path (ref_of (Some ''transport'') ''root/A.GDB/transport/rail''))
     = Inl (Error ''cannot describe'')"
  by (simp add: gdb_env_describe_fails_def ref_of_def)

theorem C2_witness:
  "fst (inventory_geodatabases gdb_env_roads_fail ''root'' state0) = Inr roads_fail_rows
   \<and> Dataset_Path (roads_fail_rows ! 0) = ''root/A.GDB/roads''
   \<and> Feature_Count (roads_fail_rows ! 0) = None
   \<and> Spatial_Reference (roads_fail_rows ! 0) = None
   \<and> fst (inventory_geodatabases gdb_env_describe_fails ''root'' state0)
       = Inl (Error ''cannot describe'')
   \<and> fst (catalog_main gdb_env_describe_fails ''root'' ''out.xlsx'' state0)
       = Inl (Error ''cannot describe'')
   \<and> excel_files (snd (catalog_main gdb_env_describe_fails ''root'' ''out.xlsx'' state0))
       = excel_files state0"
  using C2_only_count_and_spatial_reference_guarded
    [where env = gdb_env_roads_fail and root = "''root''" and pre = "[]"
       and t = "ref_of None ''root/A.GDB/roads''"
       and post = "[ref_of (Some ''transport'') ''root/A.GDB/transport/rail'',
                    ref_of None ''root/A.GDB/owners'']"
       and d = "(feature_class_desc ''roads'')
                  \<lparr>spatialReference := SR_Object (Inl (Error ''no name''))\<rparr>"
       and st = state0
       and env' = gdb_env_describe_fails and root' = "''root''"
       and pre' = "[ref_of None ''root/A.GDB/roads'']"
       and t' = "ref_of (Some ''transport'') ''root/A.GDB/transport/rail''"
       and post' = "[ref_of None ''root/A.GDB/owners'']"
       and e' = "Error ''cannot describe''" and st' = state0 and out = "''out.xlsx''"]
    roads_fail_refs roads_fail_pre roads_fail_describe roads_fail_count
    describe_fails_refs describe_fails_pre describe_fails_at roads_fail_rows_run
  by (simp add: ref_of_def)

theorem C2_counterexample:
  "fst (inventory_geodatabases gdb_env_describe_fails ''root'' state0)
     = Inl (Error ''cannot describe'')
   \<and> fst (catalog_main gdb_env_describe_fails ''root'' ''out.xlsx'' state0)
       = Inl (Error ''cannot describe'')
   \<and> excel_files (snd (catalog_main gdb_env_describe_fails ''root'' ''out.xlsx'' state0))
        ''out.xlsx'' = None"
  by code_simp

subsection \<open>The written spreadsheet\<close>

text \<open>
  C4. When the walk found datasets, the spreadsheet written holds the rows sorted
  ascending by (geodatabase name, feature-dataset name, dataset name), an absent
  feature-dataset name counting as greater than every present one. The rows are those
  found, and rows with equal keys stay in the order of discovery: nothing but the key
  decides the order.
\<close>

theorem C4_rows_sorted_by_key:
  assumes "fst (inventory_geodatabases env root
                  (print (''Starting geodatabase inventory for: '' @ root) st)) = Inr records"
    and "records \<noteq> []"
  shows "fst (catalog_main env root out st) = Inr ()
       \<and> excel_files (snd (catalog_main env root out st)) out = Some (sort_values records)
       \<and> sorted (map sort_columns (sort_values records))
       \<and> mset (sort_values records) = mset records
       \<and> (\<forall>k. filter (\<lambda>r. sort_columns r = k) (sort_values records)
               = filter (\<lambda>r. sort_columns r = k) records)"
proof -
  obtain st1 where run: "inventory_geodatabases env root
      (print (''Starting geodatabase inventory for: '' @ root) st) = (Inr records, st1)"
    using assms(1) by (metis prod.collapse)
  have "catalog_main env root out st
      = (Inr (), print ''Inventory complete.''
                   (to_excel out (sort_values records)
                      (print (''Writing inventory to Excel: '' @ out) st1)))"
    using assms(2) run by (simp add: catalog_main_def Let_def)
  then have "fst (catalog_main env root out st) = Inr ()"
    and "excel_files (snd (catalog_main env root out st)) out = Some (sort_values records)"
    by (simp_all add: print_def to_excel_def)
  moreover have "sorted (map sort_columns (sort_values records))"
    by (simp add: sort_values_def)
  moreover have "mset (sort_values records) = mset records"
    by (simp add: sort_values_def)
  moreover have "\<forall>k. filter (\<lambda>r. sort_columns r = k) (sort_values records)
               = filter (\<lambda>r. sort_columns r = k) records"
    by (simp add: sort_values_def sort_key_stable)
  ultimately show ?thesis by blast
qed

lemma gdb_env_run:
  "fst (inventory_geodatabases gdb_env ''root''
          (print (''Starting geodatabase inventory for: '' @ ''root'') state0))
     = Inr [roads_row, rail_row, owners_row]"
  by code_simp

lemma gdb_env_sorted:
  "sort_values [roads_row, rail_row, owners_row] = [rail_row, owners_row, roads_row]"
  by code_simp

theorem C4_witness:
  "excel_files (snd (catalog_main gdb_env ''root'' ''out.xlsx'' state0)) ''out.xlsx''
     = Some [rail_row, owners_row, roads_row]
   \<and> sorted (map sort_columns [rail_row, owners_row, roads_row])
   \<and> mset [rail_row, owners_row, roads_row] = mset [roads_row, rail_row, owners_row]"
proof -
  have ne: "[roads_row, rail_row, owners_row] \<noteq> []" by simp
  show ?thesis
    using C4_rows_sorted_by_key [OF gdb_env_run ne, of "''out.xlsx''"]
    unfolding gdb_env_sorted by blast
qed

text \<open>
  C5. When the walk discovers no dataset, the run prints that no datasets were found and
  writes no spreadsheet; a tree without geodatabase-suffixed folders is such a walk.
\<close>

theorem C5_no_datasets_no_file:
  "(fst (inventory_geodatabases env root
           (print (''Starting geodatabase inventory for: '' @ root) st)) = Inr [] \<longrightarrow>
      fst (catalog_main env root out st) = Inr ()
      \<and> excel_files (snd (catalog_main env root out st)) = excel_files st
      \<and> last (stdout (snd (catalog_main env root out st))) = ''No datasets found.'')
   \<and> ((\<forall>(dirpath, dirnames, filenames) \<in> set (os_walk env root).
          \<forall>dirname \<in> set dirnames. \<not> endswith (lower dirname) ''.gdb'') \<longrightarrow>
        catalog_main env root out st
          = (Inr (), print ''No datasets found.''
                       (print (''Starting geodatabase inventory for: '' @ root) st)))"
proof -
  let ?st0 = "print (''Starting geodatabase inventory for: '' @ root) st"
  have found_none: "fst (catalog_main env root out st) = Inr ()
      \<and> excel_files (snd (catalog_main env root out st)) = excel_files st
      \<and> last (stdout (snd (catalog_main env root out st))) = ''No datasets found.''"
    if "fst (inventory_geodatabases env root ?st0) = Inr []"
  proof -
    from that obtain st1 where run: "inventory_geodatabases env root ?st0 = (Inr [], st1)"
      by (metis prod.collapse)
    have main: "catalog_main env root out st = (Inr (), print ''No datasets found.'' st1)"
      using run by (simp add: catalog_main_def)
    from inventory_frame [OF run] have "excel_files st1 = excel_files st"
      by (simp add: print_def)
    then show ?thesis by (simp add: main print_def)
  qed
  have no_folder: "catalog_main env root out st = (Inr (), print ''No datasets found.'' ?st0)"
    if "\<forall>(dirpath, dirnames, filenames) \<in> set (os_walk env root).
            \<forall>dirname \<in> set dirnames. \<not> endswith (lower dirname) ''.gdb''"
  proof -
    from that have "inventory_geodatabases env root ?st0 = (Inr [], ?st0)"
      unfolding inventory_geodatabases_def by (rule walk_none)
    then show ?thesis by (simp add: catalog_main_def)
  qed
  from found_none no_folder show ?thesis by blast
qed

lemma no_gdb_env_run:
  "fst (inventory_geodatabases no_gdb_env ''root''
          (print (''Starting geodatabase inventory for: '' @ ''root'') state0)) = Inr []"
  by code_simp

lemma no_gdb_env_walk:
  "\<forall>(dirpath, dirnames, filenames) \<in> set (os_walk no_gdb_env ''root'').
     \<forall>dirname \<in> set dirnames. \<not> endswith (lower dirname) ''.gdb''"
  by (simp add: no_gdb_env_def env0_def not_gdb_docs)

theorem C5_witness:
  "fst (catalog_main no_gdb_env ''root'' ''out.xlsx'' state0) = Inr ()
   \<and> excel_files (snd (catalog_main no_gdb_env ''root'' ''out.xlsx'' state0))
       = excel_files state0
   \<and> last (stdout (snd (catalog_main no_gdb_env ''root'' ''out.xlsx'' state0)))
       = ''No datasets found.''
   \<and> catalog_main no_gdb_env ''root'' ''out.xlsx'' state0
       = (Inr (), print ''No datasets found.''
                    (print (''Starting geodatabase inventory for: '' @ ''root'') state0))"
  using C5_no_datasets_no_file [of no_gdb_env "''root''" state0 "''out.xlsx''"]
        no_gdb_env_run no_gdb_env_walk
  by blast

subsection \<open>The workspace pointer\<close>

text \<open>
  C8. During the inventory of one geodatabase the listing calls run, in order, under
  these workspaces: the top-level feature classes and the feature datasets under the
  geodatabase path, each nested listing under its feature dataset's path, then tables and
  rasters under the geodatabase path again. When an exception ends the inventory of the
  geodatabase, the calls made are an initial part of that list; when it ends normally,
  all of them were made and the workspace is None afterwards. After the loop over the
  feature datasets has handled at least one, the workspace is the geodatabase path.
\<close>

theorem C8_workspace_per_listing_call:
  "(\<exists>n. call_log (snd (scan_geodatabase env dirpath dirname records st))
          = call_log st
            @ take n (expected_listing_calls env (os_path_join env dirpath dirname)))
   \<and> (fst (scan_geodatabase env dirpath dirname records st) = Inr records' \<longrightarrow>
        call_log (snd (scan_geodatabase env dirpath dirname records st))
          = call_log st @ expected_listing_calls env (os_path_join env dirpath dirname)
        \<and> workspace (snd (scan_geodatabase env dirpath dirname records st)) = None)
   \<and> (fst (feature_datasets_loop env dirname gdb_path glm (fds # rest) records1 st1)
         = Inr records2 \<longrightarrow>
        workspace (snd (feature_datasets_loop env dirname gdb_path glm (fds # rest)
                          records1 st1)) = Some gdb_path)"
proof -
  have any: "\<exists>n. call_log (snd (scan_geodatabase env dirpath dirname records st))
          = call_log st
            @ take n (expected_listing_calls env (os_path_join env dirpath dirname))"
    by (rule scan_log_any) (rule prod.collapse [symmetric])
  have ok: "call_log (snd (scan_geodatabase env dirpath dirname records st))
          = call_log st @ expected_listing_calls env (os_path_join env dirpath dirname)
        \<and> workspace (snd (scan_geodatabase env dirpath dirname records st)) = None"
    if "fst (scan_geodatabase env dirpath dirname records st) = Inr records'"
    by (rule scan_log_ok [where r = records']) (simp add: that [symmetric])
  have restored: "workspace (snd (feature_datasets_loop env dirname gdb_path glm (fds # rest)
                          records1 st1)) = Some gdb_path"
    if "fst (feature_datasets_loop env dirname gdb_path glm (fds # rest) records1 st1)
         = Inr records2"
    using fds_loop_workspace [where r = records2 and fdss = "fds # rest" and env = env
        and dn = dirname and gp = gdb_path and glm = glm and recs = records1 and st = st1
        and st' = "snd (feature_datasets_loop env dirname gdb_path glm (fds # rest)
                          records1 st1)"]
    by (simp add: that [symmetric])
  from any ok restored show ?thesis by blast
qed

lemma gdb_env_scan:
  "fst (scan_geodatabase gdb_env ''root'' ''A.GDB'' [] state0)
     = Inr [roads_row, rail_row, owners_row]"
  by code_simp

lemma gdb_env_expected:
  "call_log state0 @ expected_listing_calls gdb_env (os_path_join gdb_env ''root'' ''A.GDB'')
     = [(ListFeatureClasses, Some ''root/A.GDB''),
        (ListDatasets, Some ''root/A.GDB''),
        (ListFeatureClasses, Some ''root/A.GDB/transport''),
        (ListTables, Some ''root/A.GDB''),
        (ListRasters, Some ''root/A.GDB'')]"
  by code_simp

lemma gdb_env_fds_loop:
  "fst (feature_datasets_loop gdb_env ''A.GDB'' ''root/A.GDB'' None [''transport''] []
     (state0\<lparr>workspace := Some ''root/A.GDB''\<rparr>))
     = Inr [rail_row\<lparr>GDB_Last_Modified := None\<rparr>]"
  by code_simp

theorem C8_witness:
  "call_log (snd (scan_geodatabase gdb_env ''root'' ''A.GDB'' [] state0))
     = [(ListFeatureClasses, Some ''root/A.GDB''),
        (ListDatasets, Some ''root/A.GDB''),
        (ListFeatureClasses, Some ''root/A.GDB/transport''),
        (ListTables, Some ''root/A.GDB''),
        (ListRasters, Some ''root/A.GDB'')]
   \<and> workspace (snd (scan_geodatabase gdb_env ''root'' ''A.GDB'' [] state0)) = None
   \<and> workspace (snd (feature_datasets_loop gdb_env ''A.GDB'' ''root/A.GDB'' None
                       [''transport''] [] (state0\<lparr>workspace := Some ''root/A.GDB''\<rparr>)))
       = Some ''root/A.GDB''"
  using C8_workspace_per_listing_call
    [where env = gdb_env and dirpath = "''root''" and dirname = "''A.GDB''"
       and records = "[]" and st = state0 and records' = "[roads_row, rail_row, owners_row]"
       and gdb_path = "''root/A.GDB''" and glm = None and fds = "''transport''"
       and rest = "[]" and ?records1.0 = "[]"
       and ?st1.0 = "state0\<lparr>workspace := Some ''root/A.GDB''\<rparr>"
       and ?records2.0 = "[rail_row\<lparr>GDB_Last_Modified := None\<rparr>]"]
  unfolding gdb_env_expected
  using gdb_env_scan gdb_env_fds_loop by blast

subsection \<open>Which folders are scanned\<close>

text \<open>
  C10. The walk announces ("Scanning geodatabase: ...") exactly the candidates drawn
  from the directory names of the walk, in order: all of them when it ends normally, an
  initial part of them when an exception ends it. A name is a candidate when it ends in a
  four-character suffix whose lowercase is \<open>.gdb\<close>. The file names of the walk are
  ignored: replacing them by anything leaves the walk's result unchanged.
\<close>

theorem C10_candidates_are_directory_names:
  "(\<exists>n. stdout (snd (inventory_geodatabases env root st))
          = stdout st @ take n (map scanning_line (gdb_candidates env (os_walk env root))))
   \<and> (fst (inventory_geodatabases env root st) = Inr records \<longrightarrow>
        stdout (snd (inventory_geodatabases env root st))
          = stdout st @ map scanning_line (gdb_candidates env (os_walk env root)))
   \<and> walk_loop env (map (\<lambda>(dirpath, dirnames, filenames).
                            (dirpath, dirnames, other dirpath dirnames filenames)) walk)
        records0 st
       = walk_loop env walk records0 st
   \<and> (endswith (lower dirname) ''.gdb''
        \<longleftrightarrow> (\<exists>pre suf. dirname = pre @ suf \<and> lower suf = ''.gdb''))"
proof -
  have any: "\<exists>n. stdout (snd (inventory_geodatabases env root st))
          = stdout st @ take n (map scanning_line (gdb_candidates env (os_walk env root)))"
    unfolding inventory_geodatabases_def
    by (rule walk_stdout_any) (rule prod.collapse [symmetric])
  have ok: "stdout (snd (inventory_geodatabases env root st))
          = stdout st @ map scanning_line (gdb_candidates env (os_walk env root))"
    if "fst (inventory_geodatabases env root st) = Inr records"
    unfolding inventory_geodatabases_def
    by (rule walk_stdout_ok [where r = records])
       (simp add: that [symmetric, unfolded inventory_geodatabases_def])
  from any ok show ?thesis
    using walk_ignores_files [of env other walk records0 st]
          endswith_lower_iff [of dirname "''.gdb''"]
    by blast
qed

lemma gdb_env_candidates:
  "stdout state0 @ map scanning_line (gdb_candidates gdb_env (os_walk gdb_env ''root''))
     = [''Scanning geodatabase: root/A.GDB'']"
  by code_simp

lemma gdb_env_inventory:
  "fst (inventory_geodatabases gdb_env ''root'' state0)
     = Inr [roads_row, rail_row, owners_row]"
  by code_simp

theorem C10_witness:
  "stdout (snd (inventory_geodatabases gdb_env ''root'' state0))
     = [''Scanning geodatabase: root/A.GDB'']
   \<and> walk_loop gdb_env
        (map (\<lambda>(dirpath, dirnames, filenames). (dirpath, dirnames, [''B.gdb'']))
           [(''root'', [''A.GDB'', ''docs''], [''notes.gdb''])]) [] state0
       = walk_loop gdb_env [(''root'', [''A.GDB'', ''docs''], [''notes.gdb''])] [] state0
   \<and> endswith (lower ''A.GDB'') ''.gdb''"
  using C10_candidates_are_directory_names
    [where env = gdb_env and root = "''root''" and st = state0
       and records = "[roads_row, rail_row, owners_row]"
       and other = "\<lambda>dirpath dirnames filenames. [''B.gdb'']"
       and walk = "[(''root'', [''A.GDB'', ''docs''], [''notes.gdb''])]"
       and ?records0.0 = "[]" and dirname = "''A.GDB''"]
  unfolding gdb_env_candidates
  using gdb_env_inventory gdb_A by blast


section \<open>The metadata report: lemmas\<close>

lemma concat_iterate_Section: "concat (iterate (Section s)) = s"
  by (induction s) simp_all

lemma write_each_appends:
  "text_files st path = Some written \<Longrightarrow>
   write_each path xs st = st\<lparr>text_files := (text_files st)(path \<mapsto> written @ concat xs)\<rparr>"
proof (induction xs arbitrary: st written)
  case Nil
  then show ?case by (simp add: map_upd_triv)
next
  case (Cons x xs)
  have fw: "fwrite path x st = st\<lparr>text_files := (text_files st)(path \<mapsto> written @ x)\<rparr>"
    using Cons.prems by (simp add: fwrite_def)
  show ?case
    unfolding write_each.simps fw
    using Cons.IH [of "st\<lparr>text_files := (text_files st)(path \<mapsto> written @ x)\<rparr>" "written @ x"]
    by (simp cong: if_cong)
qed

lemma write_complete:
  "write_metadata_to_file env D (first # second # further) path st
     = (Inr (), st\<lparr>ticks := Suc (ticks st),
                   text_files := (text_files st)(path \<mapsto>
                      report_text env D (now_strftime env (ticks st)) first second)\<rparr>)"
  by (simp add: write_metadata_to_file_def Let_def open_w_def fwrite_def write_each_appends
                report_text_def report_header_def report_footer_def)

lemma write_truncated:
  "write_metadata_to_file env D [first] path st
     = (Inl IndexError, st\<lparr>ticks := Suc (ticks st),
                   text_files := (text_files st)(path \<mapsto>
                      report_header env D (now_strftime env (ticks st))
                      @ concat (iterate first) @ ''---\<newline>\<newline>'')\<rparr>)"
  by (simp add: write_metadata_to_file_def Let_def open_w_def fwrite_def write_each_appends
                report_header_def)

lemma files_loop_frame:
  "files_loop env fs data_list contents st = (data_list', contents', st') \<Longrightarrow>
   text_files st' = text_files st \<and> ticks st' = ticks st \<and>
   excel_files st' = excel_files st"
proof (induction fs arbitrary: data_list contents st)
  case Nil
  then show ?case by simp
next
  case (Cons f fs)
  then show ?case
    by (auto simp: print_def split: prod.splits option.splits dest!: Cons.IH)
qed

lemma extract_frame:
  "text_files (snd (extract_layer_metadata env fs st)) = text_files st \<and>
   ticks (snd (extract_layer_metadata env fs st)) = ticks st"
proof -
  obtain dl cs st' where run:
    "files_loop env fs [] [''### Table of Contents \<newline>\<newline>''] st = (dl, cs, st')"
    by (metis prod_cases3)
  from files_loop_frame [OF run] show ?thesis
    using run by (simp add: extract_layer_metadata_def)
qed

lemma extract_shape:
  "\<exists>contents sections.
     fst (extract_layer_metadata env fs st) = Contents contents # map Section sections"
proof -
  obtain dl cs st' where run:
    "files_loop env fs [] [''### Table of Contents \<newline>\<newline>''] st = (dl, cs, st')"
    by (metis prod_cases3)
  then have "fst (extract_layer_metadata env fs st) = Contents cs # map Section dl"
    by (simp add: extract_layer_metadata_def)
  then show ?thesis by blast
qed

lemma files_loop_all_fail:
  "\<forall>f \<in> set fs. isl (arcpy_mp_LayerFile env f) \<Longrightarrow>
   \<exists>st'. files_loop env fs data_list contents st = (data_list, contents, st')"
proof (induction fs arbitrary: st)
  case Nil
  then show ?case by simp
next
  case (Cons f fs)
  from Cons.prems obtain e where "arcpy_mp_LayerFile env f = Inl e"
    by (cases "arcpy_mp_LayerFile env f") auto
  then have "process_file env f data_list contents = (Some e, data_list, contents)"
    by (simp add: process_file_def)
  with Cons show ?case by simp
qed

lemma extract_all_fail:
  "\<forall>f \<in> set fs. isl (arcpy_mp_LayerFile env f) \<Longrightarrow>
   fst (extract_layer_metadata env fs st) = [Contents [''### Table of Contents \<newline>\<newline>'']]"
proof -
  assume "\<forall>f \<in> set fs. isl (arcpy_mp_LayerFile env f)"
  from files_loop_all_fail [OF this] obtain st' where
    "files_loop env fs [] [''### Table of Contents \<newline>\<newline>''] st
       = ([], [''### Table of Contents \<newline>\<newline>''], st')"
    by blast
  then show ?thesis by (simp add: extract_layer_metadata_def)
qed

text \<open>What \<open>main\<close> does once files were matched, by the length of the extraction result.\<close>

lemma main_writes_both:
  assumes "glob_glob env (os_path_join env D ''*.lyrx'') \<noteq> []"
    and "fst (extract_layer_metadata env (glob_glob env (os_path_join env D ''*.lyrx''))
               (print (''Found ''
                       @ str_nat (length (glob_glob env (os_path_join env D ''*.lyrx'')))
                       @ '' layer files to process'') st))
         = first # second # further"
  shows "fst (metadata_main env D A st) = Inr ()"
    and "text_files (snd (metadata_main env D A st))
         = (text_files st)
             (os_path_join env (os_path_dirname env D) OUTPUT_FILENAME \<mapsto>
                report_text env D (now_strftime env (ticks st)) first second,
              os_path_join env A OUTPUT_FILENAME \<mapsto>
                report_text env D (now_strftime env (Suc (ticks st))) first second)"
proof -
  let ?fs = "glob_glob env (os_path_join env D ''*.lyrx'')"
  let ?st1 = "print (''Found '' @ str_nat (length ?fs) @ '' layer files to process'') st"
  obtain dl st2 where ex: "extract_layer_metadata env ?fs ?st1 = (dl, st2)"
    by fastforce
  with assms(2) have dl: "dl = first # second # further" by simp
  from extract_frame [of env ?fs ?st1] ex have
    fr: "text_files st2 = text_files st" "ticks st2 = ticks st"
    by (simp_all add: print_def)
  have main: "metadata_main env D A st
      = (case write_metadata_to_file env D dl
                (os_path_join env (os_path_dirname env D) OUTPUT_FILENAME) st2 of
           (Inl e, st3) \<Rightarrow> (Inl e, st3)
         | (Inr u, st3) \<Rightarrow>
            (case write_metadata_to_file env D dl (os_path_join env A OUTPUT_FILENAME) st3 of
               (Inl e, st4) \<Rightarrow> (Inl e, st4)
             | (Inr v, st4) \<Rightarrow>
                 (Inr (), print (''Metadata written to: ''
                      @ os_path_join env (os_path_dirname env D) OUTPUT_FILENAME) st4)))"
    using assms(1) ex by (simp add: metadata_main_def Let_def del: str_nat.simps)
  show "fst (metadata_main env D A st) = Inr ()"
    unfolding main dl write_complete by simp
  show "text_files (snd (metadata_main env D A st))
         = (text_files st)
             (os_path_join env (os_path_dirname env D) OUTPUT_FILENAME \<mapsto>
                report_text env D (now_strftime env (ticks st)) first second,
              os_path_join env A OUTPUT_FILENAME \<mapsto>
                report_text env D (now_strftime env (Suc (ticks st))) first second)"
    unfolding main dl write_complete by (simp add: fr print_def)
qed

lemma main_crashes:
  assumes "glob_glob env (os_path_join env D ''*.lyrx'') \<noteq> []"
    and "fst (extract_layer_metadata env (glob_glob env (os_path_join env D ''*.lyrx''))
               (print (''Found ''
                       @ str_nat (length (glob_glob env (os_path_join env D ''*.lyrx'')))
                       @ '' layer files to process'') st))
         = [first]"
  shows "fst (metadata_main env D A st) = Inl IndexError"
    and "text_files (snd (metadata_main env D A st))
         = (text_files st)
             (os_path_join env (os_path_dirname env D) OUTPUT_FILENAME \<mapsto>
                report_header env D (now_strftime env (ticks st))
                @ concat (iterate first) @ ''---\<newline>\<newline>'')"
proof -
  let ?fs = "glob_glob env (os_path_join env D ''*.lyrx'')"
  let ?st1 = "print (''Found '' @ str_nat (length ?fs) @ '' layer files to process'') st"
  obtain dl st2 where ex: "extract_layer_metadata env ?fs ?st1 = (dl, st2)"
    by fastforce
  with assms(2) have dl: "dl = [first]" by simp
  from extract_frame [of env ?fs ?st1] ex have
    fr: "text_files st2 = text_files st" "ticks st2 = ticks st"
    by (simp_all add: print_def)
  have main: "metadata_main env D A st
      = (case write_metadata_to_file env D dl
                (os_path_join env (os_path_dirname env D) OUTPUT_FILENAME) st2 of
           (Inl e, st3) \<Rightarrow> (Inl e, st3)
         | (Inr u, st3) \<Rightarrow>
            (case write_metadata_to_file env D dl (os_path_join env A OUTPUT_FILENAME) st3 of
               (Inl e, st4) \<Rightarrow> (Inl e, st4)
             | (Inr v, st4) \<Rightarrow>
                 (Inr (), print (''Metadata written to: ''
                      @ os_path_join env (os_path_dirname env D) OUTPUT_FILENAME) st4)))"
    using assms(1) ex by (simp add: metadata_main_def Let_def del: str_nat.simps)
  show "fst (metadata_main env D A st) = Inl IndexError"
    unfolding main dl write_truncated by simp
  show "text_files (snd (metadata_main env D A st))
         = (text_files st)
             (os_path_join env (os_path_dirname env D) OUTPUT_FILENAME \<mapsto>
                report_header env D (now_strftime env (ticks st))
                @ concat (iterate first) @ ''---\<newline>\<newline>'')"
    unfolding main dl write_truncated by (simp add: fr)
qed


text \<open>The example run, step by step.\<close>

lemma lyrx_layer:
  "process_layer (lyrx_env_at clock) roads_layer = Inr (tl good_sections)"
  by (simp add: process_layer_def lyrx_env_at_def env0_def roads_layer_def and_then_def
        source_metadata_def fields_section_def field_entry_def
        layer_properties_section_def layer_properties_def
        symbology_section_def symbology_def good_sections_def)

lemma lyrx_good_file:
  "process_file (lyrx_env_at clock) ''in/good.lyrx'' [] cs
     = (None, good_sections, cs @ [''- in/good.lyrx\<newline>''])"
  using lyrx_layer [of clock]
  by (simp add: process_file_def lyrx_env_at_def env0_def good_sections_def
                good_file_info_def)

lemma lyrx_bad_file:
  "process_file (lyrx_env_at clock) ''in/bad.lyrx'' dl cs
     = (Some (Error ''cannot open''), dl, cs)"
  by (simp add: process_file_def lyrx_env_at_def env0_def)

lemma lyrx_extract:
  "fst (extract_layer_metadata (lyrx_env_at clock) [''in/bad.lyrx'', ''in/good.lyrx''] st)
     = Contents good_contents # map Section good_sections"
  by (simp add: extract_layer_metadata_def lyrx_good_file lyrx_bad_file good_contents_def)

lemma lyrx_glob:
  "glob_glob (lyrx_env_at clock) (os_path_join (lyrx_env_at clock) D ''*.lyrx'')
     = [''in/bad.lyrx'', ''in/good.lyrx'']"
  by (simp add: lyrx_env_at_def env0_def)

lemma lyrx_paths:
  "os_path_join (lyrx_env_at clock) (os_path_dirname (lyrx_env_at clock) ''in'')
       OUTPUT_FILENAME = ''out/transportation_layer_metadata.txt''"
  "os_path_join (lyrx_env_at clock) ''admin'' OUTPUT_FILENAME
     = ''admin/transportation_layer_metadata.txt''"
  "now_strftime (lyrx_env_at clock) = clock"
  by (simp_all add: lyrx_env_at_def env0_def OUTPUT_FILENAME_def)

lemma lyrx_main:
  "fst (metadata_main (lyrx_env_at clock) ''in'' ''admin'' state0) = Inr ()"
  "text_files (snd (metadata_main (lyrx_env_at clock) ''in'' ''admin'' state0))
     = [''out/transportation_layer_metadata.txt'' \<mapsto>
          report_text (lyrx_env_at clock) ''in'' (clock 0)
            (Contents good_contents) (Section good_file_info),
        ''admin/transportation_layer_metadata.txt'' \<mapsto>
          report_text (lyrx_env_at clock) ''in'' (clock 1)
            (Contents good_contents) (Section good_file_info)]"
proof -
  have ne: "glob_glob (lyrx_env_at clock) (os_path_join (lyrx_env_at clock) ''in'' ''*.lyrx'')
              \<noteq> []"
    by (simp add: lyrx_glob)
  have ex: "fst (extract_layer_metadata (lyrx_env_at clock)
                   (glob_glob (lyrx_env_at clock)
                      (os_path_join (lyrx_env_at clock) ''in'' ''*.lyrx''))
                   (print (''Found ''
                       @ str_nat (length (glob_glob (lyrx_env_at clock)
                            (os_path_join (lyrx_env_at clock) ''in'' ''*.lyrx'')))
                       @ '' layer files to process'') state0))
         = Contents good_contents # Section good_file_info # map Section (tl good_sections)"
    unfolding lyrx_glob lyrx_extract by (simp add: good_sections_def)
  show "fst (metadata_main (lyrx_env_at clock) ''in'' ''admin'' state0) = Inr ()"
    by (rule main_writes_both(1) [OF ne ex])
  show "text_files (snd (metadata_main (lyrx_env_at clock) ''in'' ''admin'' state0))
     = [''out/transportation_layer_metadata.txt'' \<mapsto>
          report_text (lyrx_env_at clock) ''in'' (clock 0)
            (Contents good_contents) (Section good_file_info),
        ''admin/transportation_layer_metadata.txt'' \<mapsto>
          report_text (lyrx_env_at clock) ''in'' (clock 1)
            (Contents good_contents) (Section good_file_info)]"
    unfolding main_writes_both(2) [OF ne ex] lyrx_paths by (simp add: state0_def)
qed

section \<open>The metadata report: properties\<close>

text \<open>
  C6. When the glob over the configured directory matches no layer file, the script
  prints the not-found message and returns; no file is written to either destination.
\<close>

theorem C6_no_layer_files_no_report:
  assumes "glob_glob env (os_path_join env D ''*.lyrx'') = []"
  shows "metadata_main env D A st = (Inr (), print (''No .lyrx files found in '' @ D) st)
       \<and> text_files (snd (metadata_main env D A st)) = text_files st"
  using assms by (simp add: metadata_main_def print_def)

lemma env0_glob: "glob_glob env0 (os_path_join env0 ''in'' ''*.lyrx'') = []"
  by (simp add: env0_def)

theorem C6_witness:
  "metadata_main env0 ''in'' ''admin'' state0
     = (Inr (), print (''No .lyrx files found in '' @ ''in'') state0)
   \<and> text_files (snd (metadata_main env0 ''in'' ''admin'' state0)) = text_files state0"
  using C6_no_layer_files_no_report [OF env0_glob, of "''admin''" state0] .

text \<open>
  C9. When layer files are matched and every one of them raises while being opened,
  the extraction result holds the table of contents alone, the writer raises IndexError
  at its read of the second element, and \<open>main\<close> ends with that exception during the
  first write. The primary destination then holds the header, the heading of the table
  of contents and the separator, without sections or footer; the administrative copy is
  never opened.
\<close>

theorem C9_all_files_fail_index_error:
  assumes "glob_glob env (os_path_join env D ''*.lyrx'') \<noteq> []"
    and "\<forall>f \<in> set (glob_glob env (os_path_join env D ''*.lyrx'')).
           isl (arcpy_mp_LayerFile env f)"
  shows "fst (extract_layer_metadata env (glob_glob env (os_path_join env D ''*.lyrx'')) st1)
           = [Contents [''### Table of Contents \<newline>\<newline>'']]
       \<and> fst (write_metadata_to_file env D
                 [Contents [''### Table of Contents \<newline>\<newline>'']] path st2)
           = Inl IndexError
       \<and> fst (metadata_main env D A st) = Inl IndexError
       \<and> text_files (snd (metadata_main env D A st))
           = (text_files st)
               (os_path_join env (os_path_dirname env D) OUTPUT_FILENAME \<mapsto>
                  report_header env D (now_strftime env (ticks st))
                  @ ''### Table of Contents \<newline>\<newline>'' @ ''---\<newline>\<newline>'')"
proof -
  have ex: "fst (extract_layer_metadata env (glob_glob env (os_path_join env D ''*.lyrx'')) s)
           = [Contents [''### Table of Contents \<newline>\<newline>'']]" for s
    by (rule extract_all_fail [OF assms(2)])
  have "fst (write_metadata_to_file env D
                 [Contents [''### Table of Contents \<newline>\<newline>'']] path st2)
           = Inl IndexError"
    by (simp add: write_truncated)
  moreover note ex [of st1] main_crashes [OF assms(1) ex]
  ultimately show ?thesis by simp
qed

lemma all_fail_env_glob:
  "glob_glob all_fail_env (os_path_join all_fail_env ''in'' ''*.lyrx'') \<noteq> []"
  by (simp add: all_fail_env_def env0_def)

lemma all_fail_env_open:
  "\<forall>f \<in> set (glob_glob all_fail_env (os_path_join all_fail_env ''in'' ''*.lyrx'')).
     isl (arcpy_mp_LayerFile all_fail_env f)"
  by (simp add: all_fail_env_def env0_def)

lemma all_fail_env_paths:
  "os_path_join all_fail_env (os_path_dirname all_fail_env ''in'') OUTPUT_FILENAME
     = ''out/transportation_layer_metadata.txt''"
  "text_files state0 = Map.empty"
  by (simp_all add: all_fail_env_def env0_def OUTPUT_FILENAME_def state0_def)

theorem C9_witness:
  "fst (extract_layer_metadata all_fail_env
          (glob_glob all_fail_env (os_path_join all_fail_env ''in'' ''*.lyrx'')) state0)
     = [Contents [''### Table of Contents \<newline>\<newline>'']]
   \<and> fst (metadata_main all_fail_env ''in'' ''admin'' state0) = Inl IndexError
   \<and> text_files (snd (metadata_main all_fail_env ''in'' ''admin'' state0))
        ''admin/transportation_layer_metadata.txt'' = None"
  using C9_all_files_fail_index_error [OF all_fail_env_glob all_fail_env_open,
          of state0 "''out''" state0 "''admin''" state0]
  by (simp add: all_fail_env_paths)

text \<open>
  C1 (the report holds every section appended for the files processed) does not hold of
  the code. The writer reads the element at index 1 of the extraction result, which is
  the first section string alone, and iterates over its characters; the sections after it
  are never written. In the run over \<open>in/bad.lyrx\<close>, which cannot be opened, and
  \<open>in/good.lyrx\<close>, the extraction result holds the table of contents and the five
  sections of the good file, and the report written holds, between header and footer,
  the table of contents and the file information only.
\<close>

theorem C1_only_first_section_written:
  "fst (extract_layer_metadata lyrx_env [''in/bad.lyrx'', ''in/good.lyrx''] state0)
     = Contents good_contents # map Section good_sections
   \<and> length good_sections = 5
   \<and> fst (metadata_main lyrx_env ''in'' ''admin'' state0) = Inr ()
   \<and> text_files (snd (metadata_main lyrx_env ''in'' ''admin'' state0))
        ''out/transportation_layer_metadata.txt''
       = Some (report_header lyrx_env ''in'' ''2024-05-01 10:00:00''
               @ concat good_contents @ ''---\<newline>\<newline>''
               @ good_file_info
               @ report_footer ''2024-05-01 10:00:00'')"
  unfolding lyrx_env_def lyrx_extract lyrx_main
  by (simp add: report_text_def concat_iterate_Section good_sections_def)

lemma report_text_inj:
  assumes "report_text env D t1 first second = report_text env D t2 first second"
  shows "t1 = t2"
proof -
  from assms have "length (report_text env D t1 first second)
                     = length (report_text env D t2 first second)"
    by simp
  then have len: "length t1 = length t2"
    by (simp add: report_text_def report_header_def report_footer_def)
  from assms show ?thesis
    by (simp add: report_text_def report_header_def report_footer_def len)
qed

text \<open>
  C3 fails on the code as stated: each call of the writer reads the clock itself, so the
  two copies differ when the clock's formatted reading changes between the calls.
\<close>

theorem C3_counterexample:
  "fst (metadata_main lyrx_env_clock_ticks ''in'' ''admin'' state0) = Inr ()
   \<and> text_files (snd (metadata_main lyrx_env_clock_ticks ''in'' ''admin'' state0))
        ''out/transportation_layer_metadata.txt''
     \<noteq> text_files (snd (metadata_main lyrx_env_clock_ticks ''in'' ''admin'' state0))
        ''admin/transportation_layer_metadata.txt''"
proof -
  have "report_text env D ''2024-05-01 10:00:00'' first second
          \<noteq> report_text env D ''2024-05-01 10:00:01'' first second" for env D first second
    using report_text_inj [of env D "''2024-05-01 10:00:00''" first second
                             "''2024-05-01 10:00:01''"]
    by auto
  then show ?thesis
    unfolding lyrx_env_clock_ticks_def lyrx_main by simp
qed

text \<open>
  C3, as the code has it. In a run that writes output, the first call of the writer
  writes to the primary destination the report stamped, in header and footer, with the
  first clock reading of the run, and the second call writes to the administrative
  destination the same report stamped with the second reading. The two texts are
  byte-identical exactly when the two formatted readings are equal. After the run the
  administrative destination holds the second text; when the two destination paths
  differ, the primary destination holds the first text, so that the two copies are
  byte-identical exactly when the readings are equal. (When the paths coincide, the one
  file holds the second text.)
\<close>

theorem C3_copies_equal_up_to_clock_reading:
  assumes "glob_glob env (os_path_join env D ''*.lyrx'') \<noteq> []"
    and "fst (metadata_main env D A st) = Inr ()"
  shows "\<exists>first second.
           text_files
             (snd (write_metadata_to_file env D
                     (fst (extract_layer_metadata env
                             (glob_glob env (os_path_join env D ''*.lyrx''))
                             (print (''Found ''
                                @ str_nat (length (glob_glob env (os_path_join env D ''*.lyrx'')))
                                @ '' layer files to process'') st)))
                     (os_path_join env (os_path_dirname env D) OUTPUT_FILENAME)
                     (snd (extract_layer_metadata env
                             (glob_glob env (os_path_join env D ''*.lyrx''))
                             (print (''Found ''
                                @ str_nat (length (glob_glob env (os_path_join env D ''*.lyrx'')))
                                @ '' layer files to process'') st)))))
             (os_path_join env (os_path_dirname env D) OUTPUT_FILENAME)
             = Some (report_text env D (now_strftime env (ticks st)) first second)
         \<and> text_files (snd (metadata_main env D A st)) (os_path_join env A OUTPUT_FILENAME)
             = Some (report_text env D (now_strftime env (Suc (ticks st))) first second)
         \<and> (report_text env D (now_strftime env (ticks st)) first second
              = report_text env D (now_strftime env (Suc (ticks st))) first second
            \<longleftrightarrow> now_strftime env (ticks st) = now_strftime env (Suc (ticks st)))
         \<and> (os_path_join env (os_path_dirname env D) OUTPUT_FILENAME
               \<noteq> os_path_join env A OUTPUT_FILENAME \<longrightarrow>
              text_files (snd (metadata_main env D A st))
                  (os_path_join env (os_path_dirname env D) OUTPUT_FILENAME)
                = Some (report_text env D (now_strftime env (ticks st)) first second)
              \<and> (text_files (snd (metadata_main env D A st))
                    (os_path_join env (os_path_dirname env D) OUTPUT_FILENAME)
                  = text_files (snd (metadata_main env D A st))
                      (os_path_join env A OUTPUT_FILENAME)
                 \<longleftrightarrow> now_strftime env (ticks st) = now_strftime env (Suc (ticks st))))"
proof -
  let ?fs = "glob_glob env (os_path_join env D ''*.lyrx'')"
  let ?st1 = "print (''Found '' @ str_nat (length ?fs) @ '' layer files to process'') st"
  let ?out = "os_path_join env (os_path_dirname env D) OUTPUT_FILENAME"
  let ?admin = "os_path_join env A OUTPUT_FILENAME"
  let ?t1 = "now_strftime env (ticks st)"
  let ?t2 = "now_strftime env (Suc (ticks st))"
  from extract_shape [of env ?fs ?st1] obtain contents sections where
    shape: "fst (extract_layer_metadata env ?fs ?st1) = Contents contents # map Section sections"
    by blast
  show ?thesis
  proof (cases sections)
    case Nil
    with shape have "fst (extract_layer_metadata env ?fs ?st1) = [Contents contents]"
      by simp
    from main_crashes(1) [OF assms(1) this] assms(2) show ?thesis by simp
  next
    case (Cons s rest)
    let ?r1 = "report_text env D ?t1 (Contents contents) (Section s)"
    let ?r2 = "report_text env D ?t2 (Contents contents) (Section s)"
    from Cons shape have dl: "fst (extract_layer_metadata env ?fs ?st1)
        = Contents contents # Section s # map Section rest"
      by simp
    have first_call: "text_files
             (snd (write_metadata_to_file env D (fst (extract_layer_metadata env ?fs ?st1))
                     ?out (snd (extract_layer_metadata env ?fs ?st1)))) ?out
           = Some ?r1"
      unfolding dl write_complete
      using extract_frame [of env ?fs ?st1] by (simp add: print_def)
    note final = main_writes_both(2) [OF assms(1) dl]
    have admin: "text_files (snd (metadata_main env D A st)) ?admin = Some ?r2"
      unfolding final by simp
    have texts: "?r1 = ?r2 \<longleftrightarrow> ?t1 = ?t2"
      using report_text_inj by auto
    have differ: "text_files (snd (metadata_main env D A st)) ?out = Some ?r1
              \<and> (text_files (snd (metadata_main env D A st)) ?out
                  = text_files (snd (metadata_main env D A st)) ?admin
                 \<longleftrightarrow> ?t1 = ?t2)"
      if "?out \<noteq> ?admin"
    proof -
      from that have out: "text_files (snd (metadata_main env D A st)) ?out = Some ?r1"
        unfolding final by simp
      with admin texts show ?thesis by simp
    qed
    from first_call admin texts differ show ?thesis by blast
  qed
qed

lemma lyrx_env_glob:
  "glob_glob lyrx_env (os_path_join lyrx_env ''in'' ''*.lyrx'') \<noteq> []"
  by (simp add: lyrx_env_def lyrx_glob)

lemma lyrx_env_main: "fst (metadata_main lyrx_env ''in'' ''admin'' state0) = Inr ()"
  unfolding lyrx_env_def by (rule lyrx_main(1))

lemma lyrx_env_paths:
  "os_path_join lyrx_env (os_path_dirname lyrx_env ''in'') OUTPUT_FILENAME
     \<noteq> os_path_join lyrx_env ''admin'' OUTPUT_FILENAME"
  by (simp add: lyrx_env_def lyrx_paths)

lemma lyrx_env_clock:
  "now_strftime lyrx_env (ticks state0) = now_strftime lyrx_env (Suc (ticks state0))"
  by (simp add: lyrx_env_def lyrx_paths)

theorem C3_witness:
  "text_files (snd (metadata_main lyrx_env ''in'' ''admin'' state0))
      (os_path_join lyrx_env (os_path_dirname lyrx_env ''in'') OUTPUT_FILENAME)
   = text_files (snd (metadata_main lyrx_env ''in'' ''admin'' state0))
      (os_path_join lyrx_env ''admin'' OUTPUT_FILENAME)"
  using C3_copies_equal_up_to_clock_reading [OF lyrx_env_glob lyrx_env_main]
        lyrx_env_paths lyrx_env_clock
  by blast

end
